theory Spec2Isabelle
  imports Main "HOL-Library.Word"
begin

section \<open>Constants of the system headers\<close>

text \<open>
  Values of the macros the source takes from \<^verbatim>\<open>drm_fourcc.h\<close>, \<^verbatim>\<open>gbm.h\<close>,
  \<^verbatim>\<open>xf86drmMode.h\<close> and \<^verbatim>\<open>errno.h\<close>.
\<close>

definition DRM_FORMAT_MOD_INVALID :: "64 word" where
  "DRM_FORMAT_MOD_INVALID = 0x00ffffffffffffff"

definition GBM_BO_USE_SCANOUT :: "32 word" where
  "GBM_BO_USE_SCANOUT = 1"

definition DRM_MODE_FB_MODIFIERS :: "32 word" where
  "DRM_MODE_FB_MODIFIERS = 2"

definition EINVAL :: int where
  "EINVAL = 22"

definition GBM_MAX_PLANES :: int where
  "GBM_MAX_PLANES = 4"

section \<open>Data model\<close>

text \<open>One plane of a client buffer (\<^verbatim>\<open>LinuxDmaBufV1ClientBuffer::planes()\<close>).\<close>

record plane =
  plane_fd :: int
  plane_offset :: "32 word"
  plane_stride :: "32 word"
  plane_modifier :: "64 word"

text \<open>
  The external, reference-counted client buffer. \<open>cb_id\<close> is the identity of the object
  the pointer \<^verbatim>\<open>clientBuffer\<close> designates; \<^verbatim>\<open>size()\<close> is a \<^verbatim>\<open>QSize\<close> of two ints.
\<close>

record client_buffer =
  cb_id :: nat
  cb_format :: "32 word"
  cb_width :: int
  cb_height :: int
  cb_planes :: "plane list"

text \<open>
  A native buffer object (\<^verbatim>\<open>gbm_bo\<close>), as the queries of the library answer for it.
  The handle union is read as \<^verbatim>\<open>.u32\<close> (the word) or \<^verbatim>\<open>.s32\<close> (\<open>sint\<close> of it).
\<close>

record gbm_bo =
  bo_id :: nat
  bo_width :: "32 word"
  bo_height :: "32 word"
  bo_format :: "32 word"
  bo_modifier :: "64 word"
  bo_stride :: "32 word"
  bo_handle :: "32 word"
  bo_plane_count :: int
  bo_handle_for_plane :: "int \<Rightarrow> 32 word"
  bo_stride_for_plane :: "int \<Rightarrow> 32 word"
  bo_offset :: "int \<Rightarrow> 32 word"

text \<open>The device handle (\<^verbatim>\<open>DrmGpu\<close>), through the accessors the source calls.\<close>

record drm_gpu =
  gpu_fd :: int
  gpu_devNode :: string
  gpu_gbmDevice :: nat
  gpu_addFB2ModifiersSupported :: bool

text \<open>The two import descriptors of \<^verbatim>\<open>gbm.h\<close>; the arrays have \<open>GBM_MAX_PLANES\<close> cells.\<close>

record gbm_import_fd_modifier_data =
  imd_width :: "32 word"
  imd_height :: "32 word"
  imd_format :: "32 word"
  imd_num_fds :: "32 word"
  imd_fds :: "int list"
  imd_strides :: "32 word list"
  imd_offsets :: "32 word list"
  imd_modifier :: "64 word"

record gbm_import_fd_data =
  ifd_fd :: int
  ifd_width :: "32 word"
  ifd_height :: "32 word"
  ifd_stride :: "32 word"
  ifd_format :: "32 word"

datatype import_req =
  GBM_BO_IMPORT_FD_MODIFIER gbm_import_fd_modifier_data
| GBM_BO_IMPORT_FD gbm_import_fd_data

text \<open>Arguments of the three framebuffer registration calls.\<close>

record fb_arrays =
  handles :: "32 word list"
  strides :: "32 word list"
  offsets :: "32 word list"
  modifiers :: "64 word list"

record addfb2_args =
  fb_fd :: int
  fb_width :: "32 word"
  fb_height :: "32 word"
  fb_format :: "32 word"
  fb_planes :: fb_arrays
  fb_flags :: "32 word"

record addfb_args =
  lfb_fd :: int
  lfb_width :: "32 word"
  lfb_height :: "32 word"
  lfb_depth :: "8 word"
  lfb_bpp :: "8 word"
  lfb_pitch :: "32 word"
  lfb_handle :: "32 word"

text \<open>Which of the two registration diagnostics of the source is written.\<close>

datatype diagnostic =
  AddFB2WithModifiersFailed
| AddFB2AndAddFBFailed

text \<open>
  Everything the code does to the outside, in the order it does it: calls into the
  client buffer, the buffer library, the kernel and the pool, and log lines.
\<close>

datatype event =
  ClientRef nat
| ClientUnref nat
| GbmBoImport nat import_req "32 word"
| GbmBoMap nat "32 word"
| GbmBoUnmap nat nat
| GbmBoDestroy nat
| GbmBoSetUserData nat nat
| SurfaceReleaseBuffer nat nat
| EglCreateImage nat nat
| DrmModeAddFB2WithModifiers addfb2_args
| DrmModeAddFB2 addfb2_args
| DrmModeAddFB addfb_args
| DrmModeRmFB int "32 word"
| LogWarning string int
| LogEglWarning string
| LogCriticalAddFB diagnostic string string "64 word" int
| LogCriticalRmFB string int
| DumbBufferDestroyed nat

text \<open>The outside world: the trace of events so far and the global \<^verbatim>\<open>errno\<close>.\<close>

record world =
  trace :: "event list"
  errno :: int

definition emit :: "event \<Rightarrow> world \<Rightarrow> world" where
  "emit e w = w\<lparr>trace := trace w @ [e]\<rparr>"

definition events_since :: "world \<Rightarrow> world \<Rightarrow> event list" where
  "events_since w w' = drop (length (trace w)) (trace w')"

text \<open>
  The answers of the outside: a failing library or kernel call gives the value \<^verbatim>\<open>errno\<close>
  holds afterwards; a registration call that succeeds gives the identifier it writes
  through its out-pointer, and writes nothing when it fails (libdrm's contract).
  Deregistration answers \<open>None\<close> for the return value 0 and \<open>Some e\<close> for a failure
  that leaves \<open>e\<close> in \<^verbatim>\<open>errno\<close>.
\<close>

datatype drm_ret = DrmOk "32 word" | DrmErr int

record map_ret =
  mr_data :: "nat option"
  mr_stride :: "32 word"
  mr_mapping :: "nat option"

record env =
  gbm_bo_import :: "import_req \<Rightarrow> int + gbm_bo"
  gbm_bo_map :: "gbm_bo \<Rightarrow> 32 word \<Rightarrow> 32 word \<Rightarrow> nat option \<Rightarrow> map_ret"
  eglCreateImageKHR :: "nat \<Rightarrow> gbm_bo \<Rightarrow> nat option"
  getEglErrorString :: string
  gbm_format_get_name :: "32 word \<Rightarrow> string"
  drmModeAddFB2WithModifiers :: "addfb2_args \<Rightarrow> drm_ret"
  drmModeAddFB2 :: "addfb2_args \<Rightarrow> drm_ret"
  drmModeAddFB :: "addfb_args \<Rightarrow> drm_ret"
  drmModeRmFB :: "int \<Rightarrow> 32 word \<Rightarrow> int option"

text \<open>
  What C++ leaves undefined and the model makes a value: \<^verbatim>\<open>first()\<close> of an empty plane
  vector, a write past the fourth cell of a plane array, a null pointer dereferenced,
  a shared pointer to an object that is gone.
\<close>

datatype fault = EmptyPlanes | PlaneArrayOverflow | NullPointer | DanglingPointer

section \<open>Buffer Object: \<^verbatim>\<open>GbmBuffer\<close>\<close>

text \<open>
  The members of \<^verbatim>\<open>GbmBuffer\<close>. Pointers are options (\<open>None\<close> is \<^verbatim>\<open>nullptr\<close>):
  the pool by its identity, the client buffer by its identity, the mapped address and
  the mapping handle by their addresses.
\<close>

record gbm_buffer =
  m_surface :: "nat option"
  m_bo :: "gbm_bo option"
  m_clientBuffer :: "nat option"
  m_data :: "nat option"
  m_mapping :: "nat option"
  m_stride :: "32 word"

text \<open>
  Modelled from the spec: the default member initialisers of the class declaration
  (\<^verbatim>\<open>drm_buffer_gbm.h\<close> is not among the sources). A Buffer Object starts with no pool,
  no native handle, no client buffer and no mapping.
\<close>

definition GbmBuffer_default :: gbm_buffer where
  "GbmBuffer_default =
     \<lparr>m_surface = None, m_bo = None, m_clientBuffer = None,
      m_data = None, m_mapping = None, m_stride = 0\<rparr>"

text \<open>\<^verbatim>\<open>GbmBuffer::GbmBuffer(GbmSurface *surface, gbm_bo *bo)\<close>\<close>

definition GbmBuffer_surface :: "nat option \<Rightarrow> gbm_bo option \<Rightarrow> fault + gbm_buffer" where
  "GbmBuffer_surface surface bo =
     (case bo of
        None \<Rightarrow> Inl NullPointer
      | Some nbo \<Rightarrow>
          Inr (GbmBuffer_default\<lparr>m_surface := surface, m_bo := Some nbo,
                                  m_stride := bo_stride nbo\<rparr>))"

text \<open>The loop that copies the planes into the descriptor's arrays.\<close>

function fill_import_planes ::
  "plane list \<Rightarrow> int \<Rightarrow> gbm_import_fd_modifier_data \<Rightarrow> fault + gbm_import_fd_modifier_data"
where
  "fill_import_planes planes i d =
     (if i < int (length planes) then
        (if GBM_MAX_PLANES \<le> i \<or> i < 0 then Inl PlaneArrayOverflow
         else fill_import_planes planes (i + 1)
                (d\<lparr>imd_fds := (imd_fds d)[nat i := plane_fd (planes ! nat i)],
                   imd_offsets := (imd_offsets d)[nat i := plane_offset (planes ! nat i)],
                   imd_strides := (imd_strides d)[nat i := plane_stride (planes ! nat i)]\<rparr>))
      else Inr d)"
  by pat_completeness auto
termination
  by (relation "measure (\<lambda>(planes, i, d). nat (int (length planes) - i))") auto

declare fill_import_planes.simps [simp del]

text \<open>
  The request the import constructor builds from the client buffer: which import path,
  with which descriptor.
\<close>

definition import_request :: "client_buffer \<Rightarrow> fault + import_req" where
  "import_request clientBuffer =
     (let planes = cb_planes clientBuffer in
      case planes of
        [] \<Rightarrow> Inl EmptyPlanes
      | first # _ \<Rightarrow>
          if plane_modifier first \<noteq> DRM_FORMAT_MOD_INVALID \<or> plane_offset first > 0
             \<or> int (length planes) > 1
          then
            (case fill_import_planes planes 0
                    \<lparr>imd_width = word_of_int (cb_width clientBuffer),
                     imd_height = word_of_int (cb_height clientBuffer),
                     imd_format = cb_format clientBuffer,
                     imd_num_fds = word_of_nat (length planes),
                     imd_fds = [0, 0, 0, 0],
                     imd_strides = [0, 0, 0, 0],
                     imd_offsets = [0, 0, 0, 0],
                     imd_modifier = plane_modifier first\<rparr> of
               Inl f \<Rightarrow> Inl f
             | Inr data \<Rightarrow> Inr (GBM_BO_IMPORT_FD_MODIFIER data))
          else
            Inr (GBM_BO_IMPORT_FD
                   \<lparr>ifd_fd = plane_fd first,
                    ifd_width = word_of_int (cb_width clientBuffer),
                    ifd_height = word_of_int (cb_height clientBuffer),
                    ifd_stride = plane_stride first,
                    ifd_format = cb_format clientBuffer\<rparr>))"

text \<open>
  \<^verbatim>\<open>GbmBuffer::GbmBuffer(DrmGpu *gpu, LinuxDmaBufV1ClientBuffer *clientBuffer)\<close>:
  take one reference, import, read the stride back or warn.
\<close>

definition GbmBuffer_import ::
  "env \<Rightarrow> drm_gpu \<Rightarrow> client_buffer \<Rightarrow> world \<Rightarrow> fault + (gbm_buffer \<times> world)"
where
  "GbmBuffer_import ev gpu clientBuffer w =
     (let b0 = GbmBuffer_default\<lparr>m_clientBuffer := Some (cb_id clientBuffer)\<rparr>;
          w1 = emit (ClientRef (cb_id clientBuffer)) w
      in case import_request clientBuffer of
           Inl f \<Rightarrow> Inl f
         | Inr req \<Rightarrow>
             (let w2 = emit (GbmBoImport (gpu_gbmDevice gpu) req GBM_BO_USE_SCANOUT) w1
              in case gbm_bo_import ev req of
                   Inr nbo \<Rightarrow> Inr (b0\<lparr>m_bo := Some nbo, m_stride := bo_stride nbo\<rparr>, w2)
                 | Inl e \<Rightarrow>
                     (let w3 = w2\<lparr>errno := e\<rparr>
                      in if errno w3 \<noteq> EINVAL
                         then Inr (b0, emit (LogWarning
                                 ''Importing buffer for direct scanout failed:'' (errno w3)) w3)
                         else Inr (b0, w3))))"

text \<open>\<^verbatim>\<open>GbmBuffer::releaseBuffer()\<close>; \<open>this\<close> is the address of the object.\<close>

definition releaseBuffer ::
  "nat \<Rightarrow> 'a gbm_buffer_scheme \<Rightarrow> world \<Rightarrow> 'a gbm_buffer_scheme \<times> world"
where
  "releaseBuffer this b w =
     (let (b1, w1) =
            (case m_clientBuffer b of
               Some c \<Rightarrow> (b\<lparr>m_clientBuffer := None\<rparr>, emit (ClientUnref c) w)
             | None \<Rightarrow> (b, w))
      in case m_bo b1 of
           None \<Rightarrow> (b1, w1)
         | Some nbo \<Rightarrow>
             (let w2 = (case m_mapping b1 of
                          Some mp \<Rightarrow> emit (GbmBoUnmap (bo_id nbo) mp) w1
                        | None \<Rightarrow> w1);
                  (b3, w3) =
                    (case m_surface b1 of
                       Some s \<Rightarrow> (b1\<lparr>m_surface := None\<rparr>, emit (SurfaceReleaseBuffer s this) w2)
                     | None \<Rightarrow> (b1, emit (GbmBoDestroy (bo_id nbo)) w2))
              in (b3\<lparr>m_bo := None\<rparr>, w3)))"

text \<open>\<^verbatim>\<open>GbmBuffer::~GbmBuffer()\<close>\<close>

definition GbmBuffer_destroy ::
  "nat \<Rightarrow> 'a gbm_buffer_scheme \<Rightarrow> world \<Rightarrow> 'a gbm_buffer_scheme \<times> world"
where
  "GbmBuffer_destroy this b w = releaseBuffer this b w"

text \<open>
  \<^verbatim>\<open>GbmBuffer::map(uint32_t flags)\<close>: the result, the object and the world afterwards.
  The library call writes the stride and the mapping handle through out-pointers and
  returns the address, null when it fails.
\<close>

definition map_buffer ::
  "env \<Rightarrow> 32 word \<Rightarrow> 'a gbm_buffer_scheme \<Rightarrow> world \<Rightarrow> bool \<times> 'a gbm_buffer_scheme \<times> world"
where
  "map_buffer ev flags b w =
     (if m_data b \<noteq> None then (True, b, w)
      else case m_bo b of
             None \<Rightarrow> (False, b, w)
           | Some nbo \<Rightarrow>
               (let r = gbm_bo_map ev nbo flags (m_stride b) (m_mapping b)
                in (mr_data r \<noteq> None,
                    b\<lparr>m_data := mr_data r, m_stride := mr_stride r, m_mapping := mr_mapping r\<rparr>,
                    emit (GbmBoMap (bo_id nbo) flags) w)))"

definition mappedData :: "'a gbm_buffer_scheme \<Rightarrow> nat option" where
  "mappedData b = m_data b"

definition getBo :: "'a gbm_buffer_scheme \<Rightarrow> gbm_bo option" where
  "getBo b = m_bo b"

text \<open>The texture \<^verbatim>\<open>createTexture\<close> builds: display, image, and the size of the buffer.\<close>

record egl_image_texture =
  tex_display :: nat
  tex_image :: nat
  tex_width :: "32 word"
  tex_height :: "32 word"

text \<open>\<^verbatim>\<open>GbmBuffer::createTexture(EGLDisplay eglDisplay) const\<close>; \<open>None\<close> is the null pointer.\<close>

definition createTexture ::
  "env \<Rightarrow> nat \<Rightarrow> 'a gbm_buffer_scheme \<Rightarrow> world \<Rightarrow> egl_image_texture option \<times> world"
where
  "createTexture ev eglDisplay b w =
     (case m_bo b of
        None \<Rightarrow> (None, w)
      | Some nbo \<Rightarrow>
          (let w1 = emit (EglCreateImage eglDisplay (bo_id nbo)) w
           in case eglCreateImageKHR ev eglDisplay nbo of
                None \<Rightarrow>
                  (None, emit (LogEglWarning (getEglErrorString ev)) w1)
              | Some img \<Rightarrow>
                  (Some \<lparr>tex_display = eglDisplay, tex_image = img,
                         tex_width = bo_width nbo, tex_height = bo_height nbo\<rparr>, w1)))"

section \<open>Scanout Buffer: \<^verbatim>\<open>DrmGbmBuffer\<close>\<close>

text \<open>
  \<^verbatim>\<open>DrmGbmBuffer\<close> inherits \<^verbatim>\<open>DrmBuffer\<close> and \<^verbatim>\<open>GbmBuffer\<close>: the record extends the
  Buffer Object by the members of \<^verbatim>\<open>DrmBuffer\<close> that the source reads and writes.
\<close>

record drm_gbm_buffer = gbm_buffer +
  m_gpu :: drm_gpu
  m_format :: "32 word"
  m_modifier :: "64 word"
  m_size :: "int \<times> int"
  m_bufferId :: "32 word"

text \<open>
  Modelled from the spec: the constructor \<^verbatim>\<open>DrmBuffer(gpu, format, modifier)\<close> of
  \<^verbatim>\<open>drm_buffer.h\<close>, which is not among the sources. It stores its three arguments; the
  framebuffer identifier is 0 until a registration succeeds, and the size is the
  default \<^verbatim>\<open>QSize\<close>.
\<close>

definition DrmBuffer_init ::
  "drm_gpu \<Rightarrow> 32 word \<Rightarrow> 64 word \<Rightarrow> gbm_buffer \<Rightarrow> drm_gbm_buffer"
where
  "DrmBuffer_init gpu format modifier b =
     \<lparr>m_surface = m_surface b, m_bo = m_bo b, m_clientBuffer = m_clientBuffer b,
      m_data = m_data b, m_mapping = m_mapping b, m_stride = m_stride b,
      m_gpu = gpu, m_format = format, m_modifier = modifier,
      m_size = (- 1, - 1), m_bufferId = 0\<rparr>"

text \<open>The loop of \<^verbatim>\<open>initialize\<close> over the planes the native buffer reports.\<close>

function fill_fb_planes :: "gbm_bo \<Rightarrow> 64 word \<Rightarrow> int \<Rightarrow> fb_arrays \<Rightarrow> fault + fb_arrays" where
  "fill_fb_planes nbo modifier i a =
     (if i < bo_plane_count nbo then
        (if 4 \<le> i \<or> i < 0 then Inl PlaneArrayOverflow
         else fill_fb_planes nbo modifier (i + 1)
                (a\<lparr>handles := (handles a)[nat i := bo_handle_for_plane nbo i],
                   strides := (strides a)[nat i := bo_stride_for_plane nbo i],
                   offsets := (offsets a)[nat i := bo_offset nbo i],
                   modifiers := (modifiers a)[nat i := modifier]\<rparr>))
      else Inr a)"
  by pat_completeness auto
termination
  by (relation "measure (\<lambda>(nbo, modifier, i, a). nat (bo_plane_count nbo - i))") auto

declare fill_fb_planes.simps [simp del]

definition zero_arrays :: fb_arrays where
  "zero_arrays =
     \<lparr>handles = [0, 0, 0, 0], strides = [0, 0, 0, 0],
      offsets = [0, 0, 0, 0], modifiers = [0, 0, 0, 0]\<rparr>"

text \<open>Step 2 of \<^verbatim>\<open>initialize\<close>: the four arrays, per plane or for the single legacy plane.\<close>

definition plane_arrays :: "gbm_bo \<Rightarrow> 64 word \<Rightarrow> fault + fb_arrays" where
  "plane_arrays nbo modifier =
     (if sint (bo_handle_for_plane nbo 0) \<noteq> - 1 then
        fill_fb_planes nbo modifier 0 zero_arrays
      else
        Inr (zero_arrays\<lparr>handles := (handles zero_arrays)[0 := bo_handle nbo],
                         strides := (strides zero_arrays)[0 := bo_stride nbo],
                         modifiers := (modifiers zero_arrays)[0 := DRM_FORMAT_MOD_INVALID]\<rparr>))"

definition fb2_args :: "drm_gbm_buffer \<Rightarrow> fb_arrays \<Rightarrow> 32 word \<Rightarrow> addfb2_args" where
  "fb2_args b a flags =
     \<lparr>fb_fd = gpu_fd (m_gpu b),
      fb_width = word_of_int (fst (m_size b)), fb_height = word_of_int (snd (m_size b)),
      fb_format = m_format b, fb_planes = a, fb_flags = flags\<rparr>"

definition fb_args :: "drm_gbm_buffer \<Rightarrow> fb_arrays \<Rightarrow> addfb_args" where
  "fb_args b a =
     \<lparr>lfb_fd = gpu_fd (m_gpu b),
      lfb_width = word_of_int (fst (m_size b)), lfb_height = word_of_int (snd (m_size b)),
      lfb_depth = 24, lfb_bpp = 32,
      lfb_pitch = strides a ! 0, lfb_handle = handles a ! 0\<rparr>"

definition critical_addfb :: "env \<Rightarrow> diagnostic \<Rightarrow> drm_gbm_buffer \<Rightarrow> fb_arrays \<Rightarrow> world \<Rightarrow> world" where
  "critical_addfb ev dg b a w =
     emit (LogCriticalAddFB dg (gpu_devNode (m_gpu b)) (gbm_format_get_name ev (m_format b))
             (modifiers a ! 0) (errno w)) w"

text \<open>Steps 3 and 4 of \<^verbatim>\<open>initialize\<close>: the registration calls and their diagnostics.\<close>

definition register_fb ::
  "env \<Rightarrow> drm_gbm_buffer \<Rightarrow> fb_arrays \<Rightarrow> world \<Rightarrow> drm_gbm_buffer \<times> world"
where
  "register_fb ev b a w =
     (if modifiers a ! 0 \<noteq> DRM_FORMAT_MOD_INVALID \<and> gpu_addFB2ModifiersSupported (m_gpu b) then
        (let w1 = emit (DrmModeAddFB2WithModifiers (fb2_args b a DRM_MODE_FB_MODIFIERS)) w
         in case drmModeAddFB2WithModifiers ev (fb2_args b a DRM_MODE_FB_MODIFIERS) of
              DrmOk fbid \<Rightarrow> (b\<lparr>m_bufferId := fbid\<rparr>, w1)
            | DrmErr e \<Rightarrow>
                (if m_surface b \<noteq> None
                 then (b, critical_addfb ev AddFB2WithModifiersFailed b a (w1\<lparr>errno := e\<rparr>))
                 else (b, w1\<lparr>errno := e\<rparr>)))
      else
        (let w1 = emit (DrmModeAddFB2 (fb2_args b a 0)) w
         in case drmModeAddFB2 ev (fb2_args b a 0) of
              DrmOk fbid \<Rightarrow> (b\<lparr>m_bufferId := fbid\<rparr>, w1)
            | DrmErr e \<Rightarrow>
                (let w2 = emit (DrmModeAddFB (fb_args b a)) (w1\<lparr>errno := e\<rparr>)
                 in case drmModeAddFB ev (fb_args b a) of
                      DrmOk fbid \<Rightarrow> (b\<lparr>m_bufferId := fbid\<rparr>, w2)
                    | DrmErr e' \<Rightarrow>
                        (if m_surface b \<noteq> None
                         then (b, critical_addfb ev AddFB2AndAddFBFailed b a (w2\<lparr>errno := e'\<rparr>))
                         else (b, w2\<lparr>errno := e'\<rparr>)))))"

text \<open>Step 1 of \<^verbatim>\<open>initialize\<close>: the size is read from the native buffer into a \<^verbatim>\<open>QSize\<close>.\<close>

definition set_size :: "gbm_bo \<Rightarrow> drm_gbm_buffer \<Rightarrow> drm_gbm_buffer" where
  "set_size nbo b = b\<lparr>m_size := (sint (bo_width nbo), sint (bo_height nbo))\<rparr>"

text \<open>\<^verbatim>\<open>DrmGbmBuffer::initialize()\<close>\<close>

definition initialize ::
  "env \<Rightarrow> nat \<Rightarrow> drm_gbm_buffer \<Rightarrow> world \<Rightarrow> fault + (drm_gbm_buffer \<times> world)"
where
  "initialize ev this b w =
     (case m_bo b of
        None \<Rightarrow> Inr (b, w)
      | Some nbo \<Rightarrow>
          (let b1 = set_size nbo b
           in case plane_arrays nbo (m_modifier b1) of
                Inl f \<Rightarrow> Inl f
              | Inr a \<Rightarrow>
                  (let (b2, w2) = register_fb ev b1 a w
                   in Inr (b2, emit (GbmBoSetUserData (bo_id nbo) this) w2))))"

text \<open>\<^verbatim>\<open>DrmGbmBuffer::DrmGbmBuffer(DrmGpu *gpu, GbmSurface *surface, gbm_bo *bo)\<close>\<close>

definition DrmGbmBuffer_surface ::
  "env \<Rightarrow> nat \<Rightarrow> drm_gpu \<Rightarrow> nat option \<Rightarrow> gbm_bo option \<Rightarrow> world
     \<Rightarrow> fault + (drm_gbm_buffer \<times> world)"
where
  "DrmGbmBuffer_surface ev this gpu surface bo w =
     (case bo of
        None \<Rightarrow> Inl NullPointer
      | Some nbo \<Rightarrow>
          (case GbmBuffer_surface surface bo of
             Inl f \<Rightarrow> Inl f
           | Inr g \<Rightarrow> initialize ev this (DrmBuffer_init gpu (bo_format nbo) (bo_modifier nbo) g) w))"

text \<open>
  \<^verbatim>\<open>DrmGbmBuffer::DrmGbmBuffer(DrmGpu *gpu, LinuxDmaBufV1ClientBuffer *clientBuffer)\<close>
\<close>

definition DrmGbmBuffer_import ::
  "env \<Rightarrow> nat \<Rightarrow> drm_gpu \<Rightarrow> client_buffer \<Rightarrow> world \<Rightarrow> fault + (drm_gbm_buffer \<times> world)"
where
  "DrmGbmBuffer_import ev this gpu clientBuffer w =
     (case cb_planes clientBuffer of
        [] \<Rightarrow> Inl EmptyPlanes
      | first # _ \<Rightarrow>
          (case GbmBuffer_import ev gpu clientBuffer w of
             Inl f \<Rightarrow> Inl f
           | Inr (g, w1) \<Rightarrow>
               initialize ev this
                 (DrmBuffer_init gpu (cb_format clientBuffer) (plane_modifier first) g) w1))"

text \<open>The body of \<^verbatim>\<open>DrmGbmBuffer::~DrmGbmBuffer()\<close>.\<close>

definition remove_fb :: "env \<Rightarrow> drm_gbm_buffer \<Rightarrow> world \<Rightarrow> world" where
  "remove_fb ev b w =
     (if m_bufferId b \<noteq> 0 then
        (let w1 = emit (DrmModeRmFB (gpu_fd (m_gpu b)) (m_bufferId b)) w
         in case drmModeRmFB ev (gpu_fd (m_gpu b)) (m_bufferId b) of
              None \<Rightarrow> w1
            | Some e \<Rightarrow> emit (LogCriticalRmFB (gpu_devNode (m_gpu b)) e) (w1\<lparr>errno := e\<rparr>))
      else w)"

text \<open>
  Destroying a \<^verbatim>\<open>DrmGbmBuffer\<close>: the destructor's body, then the destructor of the base
  \<^verbatim>\<open>GbmBuffer\<close> (the base \<^verbatim>\<open>DrmBuffer\<close> has nothing of its own to release).
\<close>

definition DrmGbmBuffer_destroy ::
  "env \<Rightarrow> nat \<Rightarrow> drm_gbm_buffer \<Rightarrow> world \<Rightarrow> drm_gbm_buffer \<times> world"
where
  "DrmGbmBuffer_destroy ev this b w = GbmBuffer_destroy this b (remove_fb ev b w)"

definition hasBo :: "drm_gbm_buffer \<Rightarrow> bool" where
  "hasBo b = (m_bo b \<noteq> None)"

text \<open>
  The concrete kinds of \<^verbatim>\<open>DrmBuffer\<close>: the one of this file and the dumb buffer the
  display pipeline declares; of the latter only its identity matters here.
\<close>

datatype drm_buffer = GbmKind drm_gbm_buffer | DumbKind nat

text \<open>\<^verbatim>\<open>dynamic_cast<DrmGbmBuffer *>(b)\<close>: null for a null pointer and for another kind.\<close>

definition dynamic_cast_DrmGbmBuffer :: "drm_buffer option \<Rightarrow> drm_gbm_buffer option" where
  "dynamic_cast_DrmGbmBuffer b =
     (case b of None \<Rightarrow> None | Some (DumbKind _) \<Rightarrow> None | Some (GbmKind sb) \<Rightarrow> Some sb)"

text \<open>\<^verbatim>\<open>DrmGbmBuffer::needsModeChange(DrmBuffer *b) const\<close>\<close>

definition needsModeChange :: "drm_gbm_buffer \<Rightarrow> drm_buffer option \<Rightarrow> bool" where
  "needsModeChange this b =
     (case dynamic_cast_DrmGbmBuffer b of
        Some sb \<Rightarrow> hasBo this \<noteq> hasBo sb
      | None \<Rightarrow> True)"

section \<open>Display Pipeline Slot: \<^verbatim>\<open>DrmCrtc\<close>\<close>

text \<open>
  A \<^verbatim>\<open>QSharedPointer<DrmBuffer>\<close> is the address of a cell of the store, or null. The
  cell holds the object and its strong reference count (Qt's shared ownership: a copy
  of the pointer adds one, the end of a pointer takes one away and deletes the object
  when none is left).
\<close>

record shared_cell =
  cell_obj :: drm_buffer
  strongref :: nat

type_synonym store = "nat \<Rightarrow> shared_cell option"

record drm_crtc =
  m_resIndex :: int
  m_currentBuffer :: "nat option"
  m_nextBuffer :: "nat option"
  m_blackBuffer :: "nat option"

text \<open>
  \<^verbatim>\<open>delete\<close> on a \<^verbatim>\<open>DrmBuffer *\<close>: the virtual destructor of the concrete kind. The
  destructor of the dumb buffer is not among the sources; it is one opaque event.
\<close>

definition DrmBuffer_delete :: "env \<Rightarrow> nat \<Rightarrow> drm_buffer \<Rightarrow> world \<Rightarrow> world" where
  "DrmBuffer_delete ev addr obj w =
     (case obj of
        GbmKind b \<Rightarrow> snd (DrmGbmBuffer_destroy ev addr b w)
      | DumbKind d \<Rightarrow> emit (DumbBufferDestroyed d) w)"

definition sp_ref :: "nat option \<Rightarrow> store \<Rightarrow> fault + store" where
  "sp_ref p h =
     (case p of
        None \<Rightarrow> Inr h
      | Some a \<Rightarrow>
          (case h a of
             None \<Rightarrow> Inl DanglingPointer
           | Some c \<Rightarrow> Inr (h(a \<mapsto> c\<lparr>strongref := strongref c + 1\<rparr>))))"

definition sp_deref :: "env \<Rightarrow> nat option \<Rightarrow> store \<Rightarrow> world \<Rightarrow> fault + (store \<times> world)" where
  "sp_deref ev p h w =
     (case p of
        None \<Rightarrow> Inr (h, w)
      | Some a \<Rightarrow>
          (case h a of
             None \<Rightarrow> Inl DanglingPointer
           | Some c \<Rightarrow>
               if strongref c = 0 then Inl DanglingPointer
               else if strongref c = 1
               then Inr (h(a := None), DrmBuffer_delete ev a (cell_obj c) w)
               else Inr (h(a \<mapsto> c\<lparr>strongref := strongref c - 1\<rparr>), w)))"

text \<open>A shared pointer that can be copied: null, or the address of a live cell.\<close>

definition valid_ptr :: "store \<Rightarrow> nat option \<Rightarrow> bool" where
  "valid_ptr h p =
     (case p of
        None \<Rightarrow> True
      | Some a \<Rightarrow> (case h a of None \<Rightarrow> False | Some c \<Rightarrow> 0 < strongref c))"

definition current :: "drm_crtc \<Rightarrow> nat option" where
  "current c = m_currentBuffer c"

definition next_buffer :: "drm_crtc \<Rightarrow> nat option" where
  "next_buffer c = m_nextBuffer c"

text \<open>
  \<^verbatim>\<open>DrmCrtc::setNext(const QSharedPointer<DrmBuffer> &buffer)\<close>: the copy assignment
  \<^verbatim>\<open>m_nextBuffer = buffer\<close> copies the argument, stores it, and ends the pointer that
  was stored before.
\<close>

definition setNext ::
  "env \<Rightarrow> nat option \<Rightarrow> drm_crtc \<Rightarrow> store \<Rightarrow> world \<Rightarrow> fault + (drm_crtc \<times> store \<times> world)"
where
  "setNext ev buffer c h w =
     (case sp_ref buffer h of
        Inl f \<Rightarrow> Inl f
      | Inr h1 \<Rightarrow>
          (let old = m_nextBuffer c;
               c' = c\<lparr>m_nextBuffer := buffer\<rparr>
           in case sp_deref ev old h1 w of
                Inl f \<Rightarrow> Inl f
              | Inr (h2, w2) \<Rightarrow> Inr (c', h2, w2)))"

section \<open>Sequences of operations on a Buffer Object\<close>

datatype gbm_op = OpMap "32 word" | OpCreateTexture nat | OpReleaseBuffer

fun run_op ::
  "env \<Rightarrow> nat \<Rightarrow> gbm_op \<Rightarrow> 'a gbm_buffer_scheme \<times> world \<Rightarrow> 'a gbm_buffer_scheme \<times> world"
where
  "run_op ev this (OpMap flags) (b, w) = snd (map_buffer ev flags b w)"
| "run_op ev this (OpCreateTexture dpy) (b, w) = (b, snd (createTexture ev dpy b w))"
| "run_op ev this OpReleaseBuffer (b, w) = releaseBuffer this b w"

fun run_ops ::
  "env \<Rightarrow> nat \<Rightarrow> gbm_op list \<Rightarrow> 'a gbm_buffer_scheme \<times> world \<Rightarrow> 'a gbm_buffer_scheme \<times> world"
where
  "run_ops ev this [] s = s"
| "run_ops ev this (x # xs) s = run_ops ev this xs (run_op ev this x s)"

section \<open>Reading a trace\<close>

datatype tier = ModifierAware | MultiPlane | SinglePlane

fun tier_of :: "event \<Rightarrow> tier option" where
  "tier_of (DrmModeAddFB2WithModifiers _) = Some ModifierAware"
| "tier_of (DrmModeAddFB2 _) = Some MultiPlane"
| "tier_of (DrmModeAddFB _) = Some SinglePlane"
| "tier_of _ = None"

definition tiers :: "event list \<Rightarrow> tier list" where
  "tiers evs = List.map_filter tier_of evs"

fun is_registration :: "event \<Rightarrow> bool" where
  "is_registration e = (tier_of e \<noteq> None)"

fun is_critical :: "event \<Rightarrow> bool" where
  "is_critical (LogCriticalAddFB _ _ _ _ _) = True"
| "is_critical (LogCriticalRmFB _ _) = True"
| "is_critical _ = False"

fun is_rmfb :: "event \<Rightarrow> bool" where
  "is_rmfb (DrmModeRmFB _ _) = True"
| "is_rmfb _ = False"

fun is_client_call :: "event \<Rightarrow> bool" where
  "is_client_call (ClientRef _) = True"
| "is_client_call (ClientUnref _) = True"
| "is_client_call _ = False"

fun is_map_call :: "event \<Rightarrow> bool" where
  "is_map_call (GbmBoMap _ _) = True"
| "is_map_call _ = False"

fun is_set_user_data :: "event \<Rightarrow> bool" where
  "is_set_user_data (GbmBoSetUserData _ _) = True"
| "is_set_user_data _ = False"

text \<open>The answer of the kernel to a registration call of the trace.\<close>

fun reg_answer :: "env \<Rightarrow> event \<Rightarrow> drm_ret option" where
  "reg_answer ev (DrmModeAddFB2WithModifiers a) = Some (drmModeAddFB2WithModifiers ev a)"
| "reg_answer ev (DrmModeAddFB2 a) = Some (drmModeAddFB2 ev a)"
| "reg_answer ev (DrmModeAddFB a) = Some (drmModeAddFB ev a)"
| "reg_answer ev _ = None"

fun succeeded :: "drm_ret option \<Rightarrow> bool" where
  "succeeded (Some (DrmOk _)) = True"
| "succeeded _ = False"

text \<open>Every registration call of the trace was refused.\<close>

definition all_failed :: "env \<Rightarrow> event list \<Rightarrow> bool" where
  "all_failed ev evs = list_all (\<lambda>e. \<not> succeeded (reg_answer ev e)) evs"

text \<open>The data-model invariant of a plane vector: between one and four planes.\<close>

definition planes_ok :: "client_buffer \<Rightarrow> bool" where
  "planes_ok clientBuffer =
     (1 \<le> length (cb_planes clientBuffer) \<and> length (cb_planes clientBuffer) \<le> 4)"

definition is_modifier_import :: "import_req \<Rightarrow> bool" where
  "is_modifier_import r = (case r of GBM_BO_IMPORT_FD_MODIFIER _ \<Rightarrow> True | GBM_BO_IMPORT_FD _ \<Rightarrow> False)"

definition is_warning :: "event \<Rightarrow> bool" where
  "is_warning e = (case e of LogWarning _ _ \<Rightarrow> True | _ \<Rightarrow> False)"

definition is_import :: "event \<Rightarrow> bool" where
  "is_import e = (case e of GbmBoImport _ _ _ \<Rightarrow> True | _ \<Rightarrow> False)"

text \<open>What a construction left: the tiers it tried, the identifier, the critical lines.\<close>

definition registration_outcome ::
  "fault + (drm_gbm_buffer \<times> world) \<Rightarrow> (tier list \<times> 32 word \<times> event list) option"
where
  "registration_outcome r =
     (case r of
        Inl _ \<Rightarrow> None
      | Inr (b, w) \<Rightarrow> Some (tiers (trace w), m_bufferId b, filter is_critical (trace w)))"

section \<open>Concrete inputs\<close>

text \<open>A device, a native buffer, client buffers and kernels with fixed answers.\<close>

definition ex_gpu :: drm_gpu where
  "ex_gpu = \<lparr>gpu_fd = 5, gpu_devNode = ''/dev/dri/card0'', gpu_gbmDevice = 1,
             gpu_addFB2ModifiersSupported = True\<rparr>"

definition ex_bo :: gbm_bo where
  "ex_bo = \<lparr>bo_id = 7, bo_width = 640, bo_height = 480, bo_format = 875713112,
            bo_modifier = 0, bo_stride = 2560, bo_handle = 3, bo_plane_count = 1,
            bo_handle_for_plane = (\<lambda>i. 3), bo_stride_for_plane = (\<lambda>i. 2560),
            bo_offset = (\<lambda>i. 0)\<rparr>"

definition ex_plane :: plane where
  "ex_plane = \<lparr>plane_fd = 9, plane_offset = 0, plane_stride = 2560,
               plane_modifier = DRM_FORMAT_MOD_INVALID\<rparr>"

definition ex_client :: client_buffer where
  "ex_client = \<lparr>cb_id = 11, cb_format = 875713112, cb_width = 640, cb_height = 480,
                cb_planes = [ex_plane]\<rparr>"

definition ex_client2 :: client_buffer where
  "ex_client2 = \<lparr>cb_id = 12, cb_format = 842094158, cb_width = 640, cb_height = 480,
                 cb_planes = [ex_plane, ex_plane\<lparr>plane_offset := 307200\<rparr>]\<rparr>"

definition ex_env :: "(int + gbm_bo) \<Rightarrow> drm_ret \<Rightarrow> drm_ret \<Rightarrow> drm_ret \<Rightarrow> int option \<Rightarrow> env" where
  "ex_env imp r1 r2 r3 rm =
     \<lparr>gbm_bo_import = (\<lambda>r. imp),
      gbm_bo_map = (\<lambda>nbo flags st mp. \<lparr>mr_data = Some 4096, mr_stride = 2560, mr_mapping = Some 8192\<rparr>),
      eglCreateImageKHR = (\<lambda>dpy nbo. None),
      getEglErrorString = ''EGL_BAD_ALLOC'',
      gbm_format_get_name = (\<lambda>f. ''XR24''),
      drmModeAddFB2WithModifiers = (\<lambda>a. r1),
      drmModeAddFB2 = (\<lambda>a. r2),
      drmModeAddFB = (\<lambda>a. r3),
      drmModeRmFB = (\<lambda>fd fbid. rm)\<rparr>"

definition ex_world :: world where
  "ex_world = \<lparr>trace = [], errno = 0\<rparr>"

definition ex_pool_buffer :: gbm_buffer where
  "ex_pool_buffer = GbmBuffer_default\<lparr>m_surface := Some 2, m_bo := Some ex_bo, m_stride := 2560\<rparr>"

definition ex_scanout :: drm_gbm_buffer where
  "ex_scanout = DrmBuffer_init ex_gpu 875713112 0 ex_pool_buffer"

definition ex_empty_scanout :: drm_gbm_buffer where
  "ex_empty_scanout =
     DrmBuffer_init ex_gpu 875713112 DRM_FORMAT_MOD_INVALID
       (GbmBuffer_default\<lparr>m_clientBuffer := Some 11\<rparr>)"

text \<open>Map a buffer, release it, and map it again: the result of the second \<^verbatim>\<open>map\<close>.\<close>

definition map_release_map ::
  "env \<Rightarrow> nat \<Rightarrow> 32 word \<Rightarrow> gbm_buffer \<Rightarrow> world \<Rightarrow> bool \<times> gbm_buffer \<times> world"
where
  "map_release_map ev this flags b w =
     (let (r1, b1, w1) = map_buffer ev flags b w;
          (b2, w2) = releaseBuffer this b1 w1
      in map_buffer ev flags b2 w2)"

text \<open>
  A display pipeline slot showing the buffer at address 0 with the buffer at address 1
  queued, and a third buffer at address 2; each cell is held once.
\<close>

definition ex_store :: store where
  "ex_store =
     (\<lambda>a. if a = 0 then Some \<lparr>cell_obj = GbmKind ex_scanout, strongref = 1\<rparr>
          else if a = 1 then Some \<lparr>cell_obj = GbmKind (ex_scanout\<lparr>m_bufferId := 42\<rparr>), strongref = 1\<rparr>
          else if a = 2 then Some \<lparr>cell_obj = GbmKind ex_empty_scanout, strongref = 1\<rparr>
          else None)"

definition ex_crtc :: drm_crtc where
  "ex_crtc = \<lparr>m_resIndex = 0, m_currentBuffer = Some 0, m_nextBuffer = Some 1,
              m_blackBuffer = None\<rparr>"

section \<open>Properties\<close>

lemma events_since_emit [simp]:
  "events_since w (emit e w') = events_since w w' @ [e]" if "length (trace w) \<le> length (trace w')"
  using that by (simp add: events_since_def emit_def)

lemma events_since_self [simp]: "events_since w w = []"
  by (simp add: events_since_def)

lemma events_since_errno [simp]: "events_since w (w'\<lparr>errno := e\<rparr>) = events_since w w'"
  by (simp add: events_since_def)

lemma trace_emit [simp]: "trace (emit e w) = trace w @ [e]"
  by (simp add: emit_def)

lemma errno_emit [simp]: "errno (emit e w) = errno w"
  by (simp add: emit_def)

lemma fill_import_planes_ok:
  "0 \<le> i \<Longrightarrow> length planes \<le> 4 \<Longrightarrow> \<exists>d'. fill_import_planes planes i d = Inr d'"
proof (induction planes i d rule: fill_import_planes.induct)
  case (1 planes i d)
  show ?case
  proof (cases "i < int (length planes)")
    case True
    with "1.prems" have small: "\<not> (GBM_MAX_PLANES \<le> i \<or> i < 0)"
      by (simp add: GBM_MAX_PLANES_def)
    from "1.IH" [OF True small] "1.prems" True small show ?thesis
      by (subst fill_import_planes.simps) simp
  next
    case False
    then show ?thesis by (subst fill_import_planes.simps) simp
  qed
qed

lemma import_request_ok:
  assumes "planes_ok cb"
  shows "\<exists>req. import_request cb = Inr req \<and>
     (is_modifier_import req \<longleftrightarrow>
        (length (cb_planes cb) > 1 \<or> plane_modifier (hd (cb_planes cb)) \<noteq> DRM_FORMAT_MOD_INVALID
         \<or> plane_offset (hd (cb_planes cb)) \<noteq> 0))"
proof -
  from assms obtain p ps where ps: "cb_planes cb = p # ps" and len: "length (p # ps) \<le> 4"
    by (cases "cb_planes cb") (auto simp: planes_ok_def)
  have nofault: "fill_import_planes (p # ps) 0 d \<noteq> Inl f" for d f
    using fill_import_planes_ok [of 0 "p # ps" d] len by auto
  show ?thesis
    using ps nofault by (auto simp: import_request_def Let_def is_modifier_import_def
        word_greater_zero_iff split: sum.splits)
qed

text \<open>
  Claim C2. For a client buffer with one to four planes the import constructor issues
  exactly one import call, with scanout usage; the call takes the multi-plane path with
  modifier exactly when there is more than one plane, or the first plane's modifier is
  not the invalid modifier, or the first plane's offset is not zero, and the single-plane
  path otherwise. The native handle is the one the import returned, and on success the
  stride is the one read back from it.
\<close>

theorem C2_import_path_selection:
  assumes "planes_ok cb"
  shows "\<exists>req b w'. GbmBuffer_import ev gpu cb w = Inr (b, w')
     \<and> filter is_import (events_since w w') = [GbmBoImport (gpu_gbmDevice gpu) req GBM_BO_USE_SCANOUT]
     \<and> (is_modifier_import req \<longleftrightarrow>
          (length (cb_planes cb) > 1
           \<or> plane_modifier (hd (cb_planes cb)) \<noteq> DRM_FORMAT_MOD_INVALID
           \<or> plane_offset (hd (cb_planes cb)) \<noteq> 0))
     \<and> m_bo b = (case gbm_bo_import ev req of Inr nbo \<Rightarrow> Some nbo | Inl e \<Rightarrow> None)
     \<and> (\<forall>nbo. m_bo b = Some nbo \<longrightarrow> m_stride b = bo_stride nbo)"
proof -
  from import_request_ok [OF assms] obtain req where
    req: "import_request cb = Inr req" and
    sel: "is_modifier_import req \<longleftrightarrow>
        (length (cb_planes cb) > 1 \<or> plane_modifier (hd (cb_planes cb)) \<noteq> DRM_FORMAT_MOD_INVALID
         \<or> plane_offset (hd (cb_planes cb)) \<noteq> 0)"
    by blast
  show ?thesis
  proof (cases "gbm_bo_import ev req")
    case (Inr nbo)
    with req sel show ?thesis
      by (simp add: GbmBuffer_import_def Let_def is_import_def is_warning_def GbmBuffer_default_def)
  next
    case (Inl e)
    with req sel show ?thesis
      by (simp add: GbmBuffer_import_def Let_def is_import_def is_warning_def GbmBuffer_default_def)
  qed
qed

theorem C2_import_path_selection_witness:
  "planes_ok ex_client2 \<and>
   (\<exists>req b w'. GbmBuffer_import (ex_env (Inr ex_bo) (DrmOk 1) (DrmOk 1) (DrmOk 1) None)
                      ex_gpu ex_client2 ex_world = Inr (b, w')
     \<and> filter is_import (events_since ex_world w')
         = [GbmBoImport (gpu_gbmDevice ex_gpu) req GBM_BO_USE_SCANOUT]
     \<and> (is_modifier_import req \<longleftrightarrow>
          (length (cb_planes ex_client2) > 1
           \<or> plane_modifier (hd (cb_planes ex_client2)) \<noteq> DRM_FORMAT_MOD_INVALID
           \<or> plane_offset (hd (cb_planes ex_client2)) \<noteq> 0))
     \<and> m_bo b = (case gbm_bo_import (ex_env (Inr ex_bo) (DrmOk 1) (DrmOk 1) (DrmOk 1) None) req of
                   Inr nbo \<Rightarrow> Some nbo | Inl e \<Rightarrow> None)
     \<and> (\<forall>nbo. m_bo b = Some nbo \<longrightarrow> m_stride b = bo_stride nbo))"
proof -
  have h: "planes_ok ex_client2"
    by (simp add: planes_ok_def ex_client2_def)
  show ?thesis
    by (rule conjI [OF h C2_import_path_selection [OF h]])
qed

text \<open>
  Claim C3. When the import call fails with reason \<open>e\<close>, construction still returns an
  object; the object is empty (no native handle, no mapping), and a warning is among the
  events of the construction if and only if \<open>e\<close> is not \<open>EINVAL\<close>.
\<close>

theorem C3_import_failure_warning:
  assumes "planes_ok cb"
    and "\<forall>req. import_request cb = Inr req \<longrightarrow> gbm_bo_import ev req = Inl e"
  shows "\<exists>b w'. GbmBuffer_import ev gpu cb w = Inr (b, w')
     \<and> m_bo b = None \<and> m_data b = None \<and> m_mapping b = None
     \<and> errno w' = e
     \<and> ((\<exists>x \<in> set (events_since w w'). is_warning x) \<longleftrightarrow> e \<noteq> EINVAL)"
proof -
  from import_request_ok [OF assms(1)] obtain req where req: "import_request cb = Inr req"
    by blast
  with assms(2) have fail: "gbm_bo_import ev req = Inl e"
    by blast
  show ?thesis
    using req fail
    by (simp add: GbmBuffer_import_def Let_def is_warning_def GbmBuffer_default_def)
qed

theorem C3_import_failure_warning_witness:
  "planes_ok ex_client
   \<and> (\<exists>b w'. GbmBuffer_import (ex_env (Inl 13) (DrmOk 1) (DrmOk 1) (DrmOk 1) None)
                   ex_gpu ex_client ex_world = Inr (b, w')
     \<and> m_bo b = None \<and> m_data b = None \<and> m_mapping b = None
     \<and> errno w' = 13
     \<and> ((\<exists>x \<in> set (events_since ex_world w'). is_warning x) \<longleftrightarrow> (13::int) \<noteq> EINVAL))"
proof -
  have h1: "planes_ok ex_client"
    by (simp add: planes_ok_def ex_client_def)
  have h2: "\<forall>req. import_request ex_client = Inr req \<longrightarrow>
          gbm_bo_import (ex_env (Inl 13) (DrmOk 1) (DrmOk 1) (DrmOk 1) None) req = Inl 13"
    by (simp add: ex_env_def)
  show ?thesis
    by (rule conjI [OF h1 C3_import_failure_warning [OF h1 h2]])
qed

text \<open>
  Claim C5. \<^verbatim>\<open>needsModeChange\<close> on a pointer to a scanout buffer of the same concrete kind
  is true exactly when one of the two has a native buffer and the other has none; on a
  pointer to any other kind of buffer (or on the null pointer, for which the cast gives
  null as well) it is true. Nothing else of the two buffers enters the result.
\<close>

theorem C5_needsModeChange:
  "(b = Some (GbmKind sb) \<longrightarrow> needsModeChange a b = ((m_bo a = None) \<noteq> (m_bo sb = None)))
   \<and> ((\<forall>sb. b \<noteq> Some (GbmKind sb)) \<longrightarrow> needsModeChange a b)"
  by (auto simp: needsModeChange_def dynamic_cast_DrmGbmBuffer_def hasBo_def
      split: option.splits drm_buffer.splits)

theorem C5_needsModeChange_witness:
  "needsModeChange ex_scanout (Some (GbmKind ex_empty_scanout))
   \<and> \<not> needsModeChange ex_scanout (Some (GbmKind ex_scanout))
   \<and> \<not> needsModeChange ex_empty_scanout (Some (GbmKind ex_empty_scanout))
   \<and> needsModeChange ex_scanout (Some (DumbKind 1))
   \<and> needsModeChange ex_scanout None"
  using C5_needsModeChange [of "Some (GbmKind ex_empty_scanout)" ex_empty_scanout ex_scanout]
    C5_needsModeChange [of "Some (GbmKind ex_scanout)" ex_scanout ex_scanout]
    C5_needsModeChange [of "Some (GbmKind ex_empty_scanout)" ex_empty_scanout ex_empty_scanout]
    C5_needsModeChange [of "Some (DumbKind 1)" ex_scanout ex_scanout]
    C5_needsModeChange [of None ex_scanout ex_scanout]
  by (simp add: ex_scanout_def ex_empty_scanout_def DrmBuffer_init_def ex_pool_buffer_def
      GbmBuffer_default_def)

text \<open>
  What holds of an object without native handle: \<^verbatim>\<open>map\<close> makes no call and changes
  nothing, and answers whether a mapped address is recorded; \<^verbatim>\<open>createTexture\<close> makes no
  call and returns null.
\<close>

lemma map_null_handle:
  "m_bo b = None \<Longrightarrow>
     map_buffer ev flags b w = (m_data b \<noteq> None, b, w)"
  by (simp add: map_buffer_def)

lemma createTexture_null_handle:
  "m_bo b = None \<Longrightarrow> createTexture ev dpy b w = (None, w)"
  by (simp add: createTexture_def)

text \<open>
  Claim C4. A pool buffer is mapped, released and mapped again. \<^verbatim>\<open>releaseBuffer\<close> unmaps
  and clears \<^verbatim>\<open>m_bo\<close> but leaves \<^verbatim>\<open>m_data\<close> as it was, so the second \<^verbatim>\<open>map\<close>, on an
  object whose native handle is null, returns true; the only mapping call of the trace is
  the first one.
\<close>

theorem C4_map_after_release:
  "GbmBuffer_surface (Some 2) (Some ex_bo) = Inr ex_pool_buffer
   \<and> m_bo (fst (snd (map_release_map
         (ex_env (Inr ex_bo) (DrmOk 1) (DrmOk 1) (DrmOk 1) None) 100 1 ex_pool_buffer ex_world))) = None
   \<and> fst (map_release_map
         (ex_env (Inr ex_bo) (DrmOk 1) (DrmOk 1) (DrmOk 1) None) 100 1 ex_pool_buffer ex_world) = True
   \<and> filter is_map_call (trace (snd (snd (map_release_map
         (ex_env (Inr ex_bo) (DrmOk 1) (DrmOk 1) (DrmOk 1) None) 100 1 ex_pool_buffer ex_world))))
       = [GbmBoMap 7 1]"
  by (simp add: GbmBuffer_surface_def ex_pool_buffer_def GbmBuffer_default_def ex_bo_def
      map_release_map_def map_buffer_def releaseBuffer_def ex_env_def ex_world_def emit_def)

lemma events_since_append:
  "trace w' = trace w @ evs \<Longrightarrow> events_since w w' = evs"
  by (simp add: events_since_def)

lemma releaseBuffer_effect:
  "\<exists>evs. trace (snd (releaseBuffer this b w)) = trace w @ evs
     \<and> filter is_client_call evs = (case m_clientBuffer b of Some c \<Rightarrow> [ClientUnref c] | None \<Rightarrow> [])
     \<and> filter is_rmfb evs = []
     \<and> m_clientBuffer (fst (releaseBuffer this b w)) = None
     \<and> m_bo (fst (releaseBuffer this b w)) = None"
  by (auto simp: releaseBuffer_def Let_def split: option.splits prod.splits)

lemma releaseBuffer_released:
  "m_clientBuffer b = None \<Longrightarrow> m_bo b = None \<Longrightarrow> releaseBuffer this b w = (b, w)"
  by (simp add: releaseBuffer_def)

lemma map_buffer_effect:
  "\<exists>evs. trace (snd (snd (map_buffer ev flags b w))) = trace w @ evs
     \<and> filter is_client_call evs = []
     \<and> m_clientBuffer (fst (snd (map_buffer ev flags b w))) = m_clientBuffer b"
  by (auto simp: map_buffer_def Let_def split: option.splits)

lemma createTexture_effect:
  "\<exists>evs. trace (snd (createTexture ev dpy b w)) = trace w @ evs
     \<and> filter is_client_call evs = []"
  by (auto simp: createTexture_def Let_def split: option.splits)

lemma run_op_effect:
  "\<exists>evs. trace (snd (run_op ev this x (b, w))) = trace w @ evs
     \<and> ((m_clientBuffer (fst (run_op ev this x (b, w))) = m_clientBuffer b
          \<and> filter is_client_call evs = [])
        \<or> (m_clientBuffer (fst (run_op ev this x (b, w))) = None
          \<and> (\<exists>c. m_clientBuffer b = Some c \<and> filter is_client_call evs = [ClientUnref c])))"
proof (cases x)
  case (OpMap flags)
  with map_buffer_effect [of ev flags b w] show ?thesis by auto
next
  case (OpCreateTexture dpy)
  with createTexture_effect [of ev dpy b w] show ?thesis by auto
next
  case OpReleaseBuffer
  with releaseBuffer_effect [of this b w] show ?thesis
    by (cases "m_clientBuffer b") auto
qed

lemma run_ops_effect:
  "\<exists>evs. trace (snd (run_ops ev this ops (b, w))) = trace w @ evs
     \<and> ((m_clientBuffer (fst (run_ops ev this ops (b, w))) = m_clientBuffer b
          \<and> filter is_client_call evs = [])
        \<or> (m_clientBuffer (fst (run_ops ev this ops (b, w))) = None
          \<and> (\<exists>c. m_clientBuffer b = Some c \<and> filter is_client_call evs = [ClientUnref c])))"
proof (induction ops arbitrary: b w)
  case Nil
  then show ?case by simp
next
  case (Cons x xs)
  obtain b1 w1 where s1: "run_op ev this x (b, w) = (b1, w1)"
    by (cases "run_op ev this x (b, w)")
  from run_op_effect [of ev this x b w] s1 obtain e1 where
    t1: "trace w1 = trace w @ e1" and
    c1: "(m_clientBuffer b1 = m_clientBuffer b \<and> filter is_client_call e1 = [])
        \<or> (m_clientBuffer b1 = None
          \<and> (\<exists>c. m_clientBuffer b = Some c \<and> filter is_client_call e1 = [ClientUnref c]))"
    by auto
  from Cons.IH [of b1 w1] obtain e2 where
    t2: "trace (snd (run_ops ev this xs (b1, w1))) = trace w1 @ e2" and
    c2: "(m_clientBuffer (fst (run_ops ev this xs (b1, w1))) = m_clientBuffer b1
          \<and> filter is_client_call e2 = [])
        \<or> (m_clientBuffer (fst (run_ops ev this xs (b1, w1))) = None
          \<and> (\<exists>c. m_clientBuffer b1 = Some c \<and> filter is_client_call e2 = [ClientUnref c]))"
    by auto
  have "trace (snd (run_ops ev this (x # xs) (b, w))) = trace w @ (e1 @ e2)"
    using s1 t1 t2 by simp
  moreover have "(m_clientBuffer (fst (run_ops ev this (x # xs) (b, w))) = m_clientBuffer b
          \<and> filter is_client_call (e1 @ e2) = [])
        \<or> (m_clientBuffer (fst (run_ops ev this (x # xs) (b, w))) = None
          \<and> (\<exists>c. m_clientBuffer b = Some c \<and> filter is_client_call (e1 @ e2) = [ClientUnref c]))"
    using s1 c1 c2 by auto
  ultimately show ?case by blast
qed

lemma GbmBuffer_import_effect:
  assumes "planes_ok cb"
  shows "\<exists>b w1 evs. GbmBuffer_import ev gpu cb w = Inr (b, w1)
     \<and> trace w1 = trace w @ evs
     \<and> filter is_client_call evs = [ClientRef (cb_id cb)]
     \<and> m_clientBuffer b = Some (cb_id cb)"
proof -
  from import_request_ok [OF assms] obtain req where req: "import_request cb = Inr req"
    by blast
  show ?thesis
    using req
    by (cases "gbm_bo_import ev req")
      (simp_all add: GbmBuffer_import_def Let_def GbmBuffer_default_def)
qed

text \<open>
  Claim C7. The import constructor takes exactly one reference to the client buffer,
  whether or not the import succeeds. Whatever operations follow on the object (mapping,
  texture creation, explicit release), by the end of its destruction exactly one
  reference has been given back; and releasing the destroyed object again changes
  neither the object nor the world: no reference is dropped, no native call is made.
\<close>

theorem C7_client_reference_balance:
  assumes "planes_ok cb"
  shows "\<exists>b w1. GbmBuffer_import ev gpu cb w = Inr (b, w1)
     \<and> filter is_client_call (events_since w w1) = [ClientRef (cb_id cb)]
     \<and> (\<forall>ops b3 w3.
          GbmBuffer_destroy this (fst (run_ops ev this ops (b, w1)))
              (snd (run_ops ev this ops (b, w1))) = (b3, w3)
          \<longrightarrow> filter is_client_call (events_since w1 w3) = [ClientUnref (cb_id cb)]
              \<and> (\<forall>w4. releaseBuffer this b3 w4 = (b3, w4)))"
proof -
  from GbmBuffer_import_effect [OF assms, of ev gpu w] obtain b w1 evs where
    imp: "GbmBuffer_import ev gpu cb w = Inr (b, w1)" and
    tr: "trace w1 = trace w @ evs" and
    cl: "filter is_client_call evs = [ClientRef (cb_id cb)]" and
    held: "m_clientBuffer b = Some (cb_id cb)"
    by blast
  have "filter is_client_call (events_since w1 w3) = [ClientUnref (cb_id cb)]
        \<and> (\<forall>w4. releaseBuffer this b3 w4 = (b3, w4))"
    if d: "GbmBuffer_destroy this (fst (run_ops ev this ops (b, w1)))
              (snd (run_ops ev this ops (b, w1))) = (b3, w3)" for ops b3 w3
  proof -
    obtain b2 w2 where r: "run_ops ev this ops (b, w1) = (b2, w2)"
      by (cases "run_ops ev this ops (b, w1)")
    from run_ops_effect [of ev this ops b w1] r held obtain e2 where
      t2: "trace w2 = trace w1 @ e2" and
      c2: "(m_clientBuffer b2 = Some (cb_id cb) \<and> filter is_client_call e2 = [])
           \<or> (m_clientBuffer b2 = None \<and> filter is_client_call e2 = [ClientUnref (cb_id cb)])"
      by auto
    from d r have rel: "releaseBuffer this b2 w2 = (b3, w3)"
      by (simp add: GbmBuffer_destroy_def)
    from releaseBuffer_effect [of this b2 w2] rel obtain e3 where
      t3: "trace w3 = trace w2 @ e3" and
      c3: "filter is_client_call e3
            = (case m_clientBuffer b2 of Some c \<Rightarrow> [ClientUnref c] | None \<Rightarrow> [])" and
      n3: "m_clientBuffer b3 = None" "m_bo b3 = None"
      by auto
    have "trace w3 = trace w1 @ (e2 @ e3)"
      using t2 t3 by simp
    then have "events_since w1 w3 = e2 @ e3"
      by (rule events_since_append)
    moreover have "filter is_client_call (e2 @ e3) = [ClientUnref (cb_id cb)]"
      using c2 c3 by auto
    ultimately show ?thesis
      using n3 by (simp add: releaseBuffer_released)
  qed
  moreover have "filter is_client_call (events_since w w1) = [ClientRef (cb_id cb)]"
    using events_since_append [OF tr] cl by simp
  ultimately show ?thesis
    using imp by blast
qed

theorem C7_client_reference_balance_witness:
  "planes_ok ex_client
   \<and> (\<exists>b w1. GbmBuffer_import (ex_env (Inl 13) (DrmOk 1) (DrmOk 1) (DrmOk 1) None)
                    ex_gpu ex_client ex_world = Inr (b, w1)
     \<and> filter is_client_call (events_since ex_world w1) = [ClientRef (cb_id ex_client)]
     \<and> (\<forall>ops b3 w3.
          GbmBuffer_destroy 100
              (fst (run_ops (ex_env (Inl 13) (DrmOk 1) (DrmOk 1) (DrmOk 1) None) 100 ops (b, w1)))
              (snd (run_ops (ex_env (Inl 13) (DrmOk 1) (DrmOk 1) (DrmOk 1) None) 100 ops (b, w1)))
            = (b3, w3)
          \<longrightarrow> filter is_client_call (events_since w1 w3) = [ClientUnref (cb_id ex_client)]
              \<and> (\<forall>w4. releaseBuffer 100 b3 w4 = (b3, w4))))"
proof -
  have h: "planes_ok ex_client"
    by (simp add: planes_ok_def ex_client_def)
  show ?thesis
    by (rule conjI [OF h C7_client_reference_balance [OF h]])
qed

lemma releaseBuffer_events:
  "trace (snd (releaseBuffer this b w)) = trace w @ events_since w0 (snd (releaseBuffer this b w0))"
  by (auto simp: releaseBuffer_def Let_def events_since_def split: option.splits prod.splits)

lemma remove_fb_effect:
  "\<exists>evs. trace (remove_fb ev b w) = trace w @ evs
     \<and> filter is_rmfb evs
         = (if m_bufferId b \<noteq> 0 then [DrmModeRmFB (gpu_fd (m_gpu b)) (m_bufferId b)] else [])
     \<and> (\<forall>e. m_bufferId b \<noteq> 0 \<and> drmModeRmFB ev (gpu_fd (m_gpu b)) (m_bufferId b) = Some e
            \<longrightarrow> LogCriticalRmFB (gpu_devNode (m_gpu b)) e \<in> set evs)"
  by (auto simp: remove_fb_def Let_def split: option.splits)

text \<open>
  Claim C6. Destroying a scanout buffer calls the deregistration exactly once, with the
  device and the stored identifier, when the identifier is not 0, and not at all when it
  is 0. When the call fails with \<open>e\<close> the critical message is written; in every case the
  events of the destruction end with exactly the events of \<^verbatim>\<open>releaseBuffer\<close> on the
  object, and the object ends without native handle and without client buffer.
\<close>

theorem C6_destroy_deregisters:
  assumes "DrmGbmBuffer_destroy ev this b w = (b', w')"
  shows "filter is_rmfb (events_since w w')
           = (if m_bufferId b \<noteq> 0 then [DrmModeRmFB (gpu_fd (m_gpu b)) (m_bufferId b)] else [])
     \<and> (\<forall>e. m_bufferId b \<noteq> 0 \<and> drmModeRmFB ev (gpu_fd (m_gpu b)) (m_bufferId b) = Some e
            \<longrightarrow> LogCriticalRmFB (gpu_devNode (m_gpu b)) e \<in> set (events_since w w'))
     \<and> (\<exists>pre. events_since w w' = pre @ events_since w (snd (releaseBuffer this b w)))
     \<and> m_bo b' = None \<and> m_clientBuffer b' = None"
proof -
  from remove_fb_effect [of ev b w] obtain e1 where
    t1: "trace (remove_fb ev b w) = trace w @ e1" and
    f1: "filter is_rmfb e1
         = (if m_bufferId b \<noteq> 0 then [DrmModeRmFB (gpu_fd (m_gpu b)) (m_bufferId b)] else [])" and
    c1: "\<forall>e. m_bufferId b \<noteq> 0 \<and> drmModeRmFB ev (gpu_fd (m_gpu b)) (m_bufferId b) = Some e
            \<longrightarrow> LogCriticalRmFB (gpu_devNode (m_gpu b)) e \<in> set e1"
    by blast
  let ?w1 = "remove_fb ev b w"
  from assms have rel: "releaseBuffer this b ?w1 = (b', w')"
    by (simp add: DrmGbmBuffer_destroy_def GbmBuffer_destroy_def)
  let ?e2 = "events_since w (snd (releaseBuffer this b w))"
  have t2: "trace w' = trace ?w1 @ ?e2"
    using releaseBuffer_events [of this b ?w1 w] rel by simp
  from releaseBuffer_effect [of this b w] have f2: "filter is_rmfb ?e2 = []"
    by (auto simp: events_since_append)
  from releaseBuffer_effect [of this b ?w1] rel have n: "m_bo b' = None" "m_clientBuffer b' = None"
    by auto
  have ev: "events_since w w' = e1 @ ?e2"
    using t1 t2 by (simp add: events_since_append)
  show ?thesis
    using ev f1 f2 c1 n by auto
qed

theorem C6_destroy_deregisters_witness:
  "filter is_rmfb (events_since ex_world
       (snd (DrmGbmBuffer_destroy (ex_env (Inr ex_bo) (DrmOk 1) (DrmOk 1) (DrmOk 1) (Some 2)) 100
              (ex_scanout\<lparr>m_bufferId := 42\<rparr>) ex_world)))
     = [DrmModeRmFB 5 42]
   \<and> LogCriticalRmFB ''/dev/dri/card0'' 2 \<in> set (events_since ex_world
       (snd (DrmGbmBuffer_destroy (ex_env (Inr ex_bo) (DrmOk 1) (DrmOk 1) (DrmOk 1) (Some 2)) 100
              (ex_scanout\<lparr>m_bufferId := 42\<rparr>) ex_world)))
   \<and> m_bo (fst (DrmGbmBuffer_destroy (ex_env (Inr ex_bo) (DrmOk 1) (DrmOk 1) (DrmOk 1) (Some 2)) 100
              (ex_scanout\<lparr>m_bufferId := 42\<rparr>) ex_world)) = None
   \<and> filter is_rmfb (events_since ex_world
       (snd (DrmGbmBuffer_destroy (ex_env (Inr ex_bo) (DrmOk 1) (DrmOk 1) (DrmOk 1) (Some 2)) 100
              ex_scanout ex_world))) = []"
proof -
  let ?E = "ex_env (Inr ex_bo) (DrmOk 1) (DrmOk 1) (DrmOk 1) (Some 2)"
  let ?b = "ex_scanout\<lparr>m_bufferId := 42\<rparr>"
  have id: "m_bufferId ?b = 42" "gpu_fd (m_gpu ?b) = 5" "gpu_devNode (m_gpu ?b) = ''/dev/dri/card0''"
    "m_bufferId ex_scanout = 0"
    by (simp_all add: ex_scanout_def DrmBuffer_init_def ex_gpu_def)
  have rm: "drmModeRmFB ?E 5 42 = Some 2"
    by (simp add: ex_env_def)
  have d1: "DrmGbmBuffer_destroy ?E 100 ?b ex_world
      = (fst (DrmGbmBuffer_destroy ?E 100 ?b ex_world), snd (DrmGbmBuffer_destroy ?E 100 ?b ex_world))"
    by simp
  have d2: "DrmGbmBuffer_destroy ?E 100 ex_scanout ex_world
      = (fst (DrmGbmBuffer_destroy ?E 100 ex_scanout ex_world),
         snd (DrmGbmBuffer_destroy ?E 100 ex_scanout ex_world))"
    by simp
  show ?thesis
    using C6_destroy_deregisters [OF d1] C6_destroy_deregisters [OF d2] id rm
    by simp
qed

lemma fill_fb_planes_ok:
  "bo_plane_count nbo \<le> 4 \<Longrightarrow> 0 \<le> i \<Longrightarrow> \<exists>a'. fill_fb_planes nbo md i a = Inr a'"
proof (induction nbo md i a rule: fill_fb_planes.induct)
  case (1 nbo md i a)
  show ?case
  proof (cases "i < bo_plane_count nbo")
    case True
    with "1.prems" have small: "\<not> (4 \<le> i \<or> i < 0)"
      by simp
    from "1.IH" [OF True small] "1.prems" True small show ?thesis
      by (subst fill_fb_planes.simps) simp
  next
    case False
    then show ?thesis by (subst fill_fb_planes.simps) simp
  qed
qed

lemma plane_arrays_ok:
  "bo_plane_count nbo \<le> 4 \<Longrightarrow> \<exists>a. plane_arrays nbo md = Inr a"
  using fill_fb_planes_ok [of nbo 0 md zero_arrays]
  by (auto simp: plane_arrays_def)

lemma register_fb_frame:
  "\<exists>evs. trace (snd (register_fb ev b a w)) = trace w @ evs
     \<and> filter is_set_user_data evs = []
     \<and> m_bo (fst (register_fb ev b a w)) = m_bo b
     \<and> m_surface (fst (register_fb ev b a w)) = m_surface b"
  by (auto simp: register_fb_def Let_def critical_addfb_def split: drm_ret.splits)

text \<open>
  Claim C10. \<^verbatim>\<open>initialize\<close> on an object without native handle does nothing at all: no
  registration call, no tag. On an object with a native handle (reporting at most four
  planes) it always returns, and the last event is the tagging of the native buffer with
  the address of the object, exactly once, whatever the registration calls answered.
\<close>

theorem C10_user_data_tag:
  "(m_bo b = None \<longrightarrow> initialize ev this b w = Inr (b, w))
   \<and> (\<forall>nbo. m_bo b = Some nbo \<and> bo_plane_count nbo \<le> 4 \<longrightarrow>
        (\<exists>b' w' evs. initialize ev this b w = Inr (b', w')
           \<and> events_since w w' = evs @ [GbmBoSetUserData (bo_id nbo) this]
           \<and> filter is_set_user_data evs = []
           \<and> m_bo b' = Some nbo))"
proof (intro conjI allI impI)
  assume "m_bo b = None"
  then show "initialize ev this b w = Inr (b, w)"
    by (simp add: initialize_def)
next
  fix nbo
  assume h: "m_bo b = Some nbo \<and> bo_plane_count nbo \<le> 4"
  from plane_arrays_ok [of nbo "m_modifier (set_size nbo b)"] h obtain a where
    a: "plane_arrays nbo (m_modifier (set_size nbo b)) = Inr a"
    by blast
  obtain b2 w2 where reg: "register_fb ev (set_size nbo b) a w = (b2, w2)"
    by (cases "register_fb ev (set_size nbo b) a w")
  from register_fb_frame [of ev "set_size nbo b" a w] reg obtain evs where
    t: "trace w2 = trace w @ evs" and nt: "filter is_set_user_data evs = []" and
    bo: "m_bo b2 = m_bo (set_size nbo b)"
    by auto
  have init: "initialize ev this b w = Inr (b2, emit (GbmBoSetUserData (bo_id nbo) this) w2)"
    using h a reg by (simp add: initialize_def Let_def)
  have "events_since w (emit (GbmBoSetUserData (bo_id nbo) this) w2)
          = evs @ [GbmBoSetUserData (bo_id nbo) this]"
    using t by (simp add: events_since_def)
  moreover have "m_bo b2 = Some nbo"
    using bo h by (simp add: set_size_def)
  ultimately show "\<exists>b' w' evs. initialize ev this b w = Inr (b', w')
           \<and> events_since w w' = evs @ [GbmBoSetUserData (bo_id nbo) this]
           \<and> filter is_set_user_data evs = []
           \<and> m_bo b' = Some nbo"
    using init nt by blast
qed

theorem C10_user_data_tag_witness:
  "initialize (ex_env (Inr ex_bo) (DrmErr 22) (DrmErr 22) (DrmErr 22) None) 100
       ex_empty_scanout ex_world = Inr (ex_empty_scanout, ex_world)
   \<and> (\<exists>b' w' evs. initialize (ex_env (Inr ex_bo) (DrmErr 22) (DrmErr 22) (DrmErr 22) None) 100
                       ex_scanout ex_world = Inr (b', w')
           \<and> events_since ex_world w' = evs @ [GbmBoSetUserData 7 100]
           \<and> filter is_set_user_data evs = []
           \<and> m_bo b' = Some ex_bo)"
proof -
  have h1: "m_bo ex_empty_scanout = None"
    by (simp add: ex_empty_scanout_def DrmBuffer_init_def GbmBuffer_default_def)
  have h2: "m_bo ex_scanout = Some ex_bo \<and> bo_plane_count ex_bo \<le> 4"
    by (simp add: ex_scanout_def DrmBuffer_init_def ex_pool_buffer_def GbmBuffer_default_def
        ex_bo_def)
  have id: "bo_id ex_bo = 7"
    by (simp add: ex_bo_def)
  from C10_user_data_tag [of ex_empty_scanout
      "ex_env (Inr ex_bo) (DrmErr 22) (DrmErr 22) (DrmErr 22) None" 100 ex_world] h1
  have c1: "initialize (ex_env (Inr ex_bo) (DrmErr 22) (DrmErr 22) (DrmErr 22) None) 100
       ex_empty_scanout ex_world = Inr (ex_empty_scanout, ex_world)"
    by blast
  from C10_user_data_tag [of ex_scanout
      "ex_env (Inr ex_bo) (DrmErr 22) (DrmErr 22) (DrmErr 22) None" 100 ex_world] h2 id
  have c2: "\<exists>b' w' evs. initialize (ex_env (Inr ex_bo) (DrmErr 22) (DrmErr 22) (DrmErr 22) None) 100
                       ex_scanout ex_world = Inr (b', w')
           \<and> events_since ex_world w' = evs @ [GbmBoSetUserData 7 100]
           \<and> filter is_set_user_data evs = []
           \<and> m_bo b' = Some ex_bo"
    by auto
  from c1 c2 show ?thesis by blast
qed

lemma register_fb_protocol:
  assumes "m_bufferId b = 0"
  shows "\<exists>evs. trace (snd (register_fb ev b a w)) = trace w @ evs \<and>
    (if modifiers a ! 0 \<noteq> DRM_FORMAT_MOD_INVALID \<and> gpu_addFB2ModifiersSupported (m_gpu b)
     then filter is_registration evs
            = [DrmModeAddFB2WithModifiers (fb2_args b a DRM_MODE_FB_MODIFIERS)]
        \<and> m_bufferId (fst (register_fb ev b a w))
            = (case drmModeAddFB2WithModifiers ev (fb2_args b a DRM_MODE_FB_MODIFIERS) of
                 DrmOk i \<Rightarrow> i | DrmErr _ \<Rightarrow> 0)
     else (case drmModeAddFB2 ev (fb2_args b a 0) of
             DrmOk i \<Rightarrow>
               filter is_registration evs = [DrmModeAddFB2 (fb2_args b a 0)]
               \<and> m_bufferId (fst (register_fb ev b a w)) = i
           | DrmErr _ \<Rightarrow>
               filter is_registration evs
                 = [DrmModeAddFB2 (fb2_args b a 0), DrmModeAddFB (fb_args b a)]
               \<and> m_bufferId (fst (register_fb ev b a w))
                   = (case drmModeAddFB ev (fb_args b a) of DrmOk i \<Rightarrow> i | DrmErr _ \<Rightarrow> 0)))"
  using assms
  by (auto simp: register_fb_def Let_def critical_addfb_def split: drm_ret.splits)

text \<open>
  Claim C1, as the code has it. Registration of an object with a native handle (reporting
  at most four planes) and identifier 0 has two branches. When plane 0's modifier is not
  the invalid modifier and the device supports modifier-aware registration, the
  modifier-aware call is the only registration call: after its failure nothing else is
  tried. Otherwise the plain multi-plane call is made first and, only when it fails, the
  single-plane legacy call with depth 24 and 32 bits per pixel. The identifier is the one
  of the call that succeeded and stays 0 when every call that was made failed; in all
  cases \<^verbatim>\<open>initialize\<close> returns and the object keeps its native handle.
\<close>

theorem C1_registration_protocol:
  assumes "m_bo b = Some nbo" and "bo_plane_count nbo \<le> 4" and "m_bufferId b = 0"
  shows "\<exists>a b' w'. plane_arrays nbo (m_modifier b) = Inr a
     \<and> initialize ev this b w = Inr (b', w') \<and> m_bo b' = Some nbo
     \<and> (if modifiers a ! 0 \<noteq> DRM_FORMAT_MOD_INVALID \<and> gpu_addFB2ModifiersSupported (m_gpu b)
        then filter is_registration (events_since w w')
               = [DrmModeAddFB2WithModifiers (fb2_args (set_size nbo b) a DRM_MODE_FB_MODIFIERS)]
           \<and> m_bufferId b'
               = (case drmModeAddFB2WithModifiers ev
                         (fb2_args (set_size nbo b) a DRM_MODE_FB_MODIFIERS) of
                    DrmOk i \<Rightarrow> i | DrmErr _ \<Rightarrow> 0)
        else (case drmModeAddFB2 ev (fb2_args (set_size nbo b) a 0) of
                DrmOk i \<Rightarrow>
                  filter is_registration (events_since w w')
                    = [DrmModeAddFB2 (fb2_args (set_size nbo b) a 0)]
                  \<and> m_bufferId b' = i
              | DrmErr _ \<Rightarrow>
                  filter is_registration (events_since w w')
                    = [DrmModeAddFB2 (fb2_args (set_size nbo b) a 0),
                       DrmModeAddFB (fb_args (set_size nbo b) a)]
                  \<and> lfb_depth (fb_args (set_size nbo b) a) = 24
                  \<and> lfb_bpp (fb_args (set_size nbo b) a) = 32
                  \<and> m_bufferId b'
                      = (case drmModeAddFB ev (fb_args (set_size nbo b) a) of
                           DrmOk i \<Rightarrow> i | DrmErr _ \<Rightarrow> 0)))"
proof -
  let ?b1 = "set_size nbo b"
  have same: "m_modifier ?b1 = m_modifier b" "m_gpu ?b1 = m_gpu b" "m_bufferId ?b1 = 0"
    "m_bo ?b1 = Some nbo"
    using assms by (simp_all add: set_size_def)
  from plane_arrays_ok [OF assms(2), of "m_modifier b"] obtain a where
    a: "plane_arrays nbo (m_modifier b) = Inr a"
    by blast
  obtain b2 w2 where reg: "register_fb ev ?b1 a w = (b2, w2)"
    by (cases "register_fb ev ?b1 a w")
  have f: "fst (register_fb ev ?b1 a w) = b2" "snd (register_fb ev ?b1 a w) = w2"
    using reg by simp_all
  from register_fb_protocol [OF same(3), of ev a w, unfolded f same(2)] obtain evs where
    t: "trace w2 = trace w @ evs" and
    p: "if modifiers a ! 0 \<noteq> DRM_FORMAT_MOD_INVALID \<and> gpu_addFB2ModifiersSupported (m_gpu b)
     then filter is_registration evs
            = [DrmModeAddFB2WithModifiers (fb2_args ?b1 a DRM_MODE_FB_MODIFIERS)]
        \<and> m_bufferId b2
            = (case drmModeAddFB2WithModifiers ev (fb2_args ?b1 a DRM_MODE_FB_MODIFIERS) of
                 DrmOk i \<Rightarrow> i | DrmErr _ \<Rightarrow> 0)
     else (case drmModeAddFB2 ev (fb2_args ?b1 a 0) of
             DrmOk i \<Rightarrow>
               filter is_registration evs = [DrmModeAddFB2 (fb2_args ?b1 a 0)]
               \<and> m_bufferId b2 = i
           | DrmErr _ \<Rightarrow>
               filter is_registration evs
                 = [DrmModeAddFB2 (fb2_args ?b1 a 0), DrmModeAddFB (fb_args ?b1 a)]
               \<and> m_bufferId b2
                   = (case drmModeAddFB ev (fb_args ?b1 a) of DrmOk i \<Rightarrow> i | DrmErr _ \<Rightarrow> 0))"
    by blast
  let ?w' = "emit (GbmBoSetUserData (bo_id nbo) this) w2"
  have init: "initialize ev this b w = Inr (b2, ?w')"
    using assms(1) a reg same(1) by (simp add: initialize_def Let_def)
  have evs: "filter is_registration (events_since w ?w') = filter is_registration evs"
    using t by (simp add: events_since_def)
  from register_fb_frame [of ev ?b1 a w] reg same(4) have bo: "m_bo b2 = Some nbo"
    by auto
  have depth: "lfb_depth (fb_args ?b1 a) = 24" "lfb_bpp (fb_args ?b1 a) = 32"
    by (simp_all add: fb_args_def)
  show ?thesis
    using a init bo evs p depth
    by (auto split: drm_ret.splits if_splits)
qed

text \<open>
  On a device with modifier support, a pool buffer with the linear modifier whose
  modifier-aware registration is refused is left with identifier 0 after this single
  call, although the kernel would have accepted both other calls.
\<close>

theorem C1_three_tier_counterexample:
  "registration_outcome
     (DrmGbmBuffer_surface (ex_env (Inr ex_bo) (DrmErr 22) (DrmOk 9) (DrmOk 9) None)
        100 ex_gpu (Some 2) (Some ex_bo) ex_world)
   = Some ([ModifierAware], 0,
           [LogCriticalAddFB AddFB2WithModifiersFailed ''/dev/dri/card0'' ''XR24'' 0 22])"
  by (simp add: registration_outcome_def DrmGbmBuffer_surface_def GbmBuffer_surface_def
      GbmBuffer_default_def DrmBuffer_init_def initialize_def set_size_def plane_arrays_def
      fill_fb_planes.simps zero_arrays_def register_fb_def fb2_args_def fb_args_def
      critical_addfb_def ex_env_def ex_gpu_def ex_bo_def ex_world_def emit_def tiers_def
      List.map_filter_def DRM_FORMAT_MOD_INVALID_def DRM_MODE_FB_MODIFIERS_def Let_def)

lemma tiers_filter: "tiers evs = tiers (filter is_registration evs)"
  by (induction evs) (auto simp: tiers_def List.map_filter_def)

theorem C1_registration_protocol_witness:
  "m_bo ex_scanout = Some ex_bo \<and> bo_plane_count ex_bo \<le> 4 \<and> m_bufferId ex_scanout = 0
   \<and> (\<exists>b' w'. initialize (ex_env (Inr ex_bo) (DrmErr 22) (DrmOk 9) (DrmOk 9) None) 100
                     ex_scanout ex_world = Inr (b', w')
        \<and> tiers (events_since ex_world w') = [ModifierAware]
        \<and> m_bufferId b' = 0)"
proof -
  let ?E = "ex_env (Inr ex_bo) (DrmErr 22) (DrmOk 9) (DrmOk 9) None"
  have h1: "m_bo ex_scanout = Some ex_bo"
    by (simp add: ex_scanout_def DrmBuffer_init_def ex_pool_buffer_def GbmBuffer_default_def)
  have h2: "bo_plane_count ex_bo \<le> 4"
    by (simp add: ex_bo_def)
  have h3: "m_bufferId ex_scanout = 0"
    by (simp add: ex_scanout_def DrmBuffer_init_def)
  have a: "plane_arrays ex_bo (m_modifier ex_scanout)
        = Inr \<lparr>handles = [3, 0, 0, 0], strides = [2560, 0, 0, 0],
                offsets = [0, 0, 0, 0], modifiers = [0, 0, 0, 0]\<rparr>"
    by (simp add: plane_arrays_def fill_fb_planes.simps zero_arrays_def ex_bo_def ex_scanout_def
        DrmBuffer_init_def)
  have sup: "gpu_addFB2ModifiersSupported (m_gpu ex_scanout)"
    by (simp add: ex_scanout_def DrmBuffer_init_def ex_gpu_def)
  have ans: "drmModeAddFB2WithModifiers ?E x = DrmErr 22" for x
    by (simp add: ex_env_def)
  from C1_registration_protocol [OF h1 h2 h3, of ?E 100 ex_world] a sup ans
  have "\<exists>b' w'. initialize ?E 100 ex_scanout ex_world = Inr (b', w')
        \<and> filter is_registration (events_since ex_world w')
            = [DrmModeAddFB2WithModifiers
                 (fb2_args (set_size ex_bo ex_scanout)
                    \<lparr>handles = [3, 0, 0, 0], strides = [2560, 0, 0, 0],
                     offsets = [0, 0, 0, 0], modifiers = [0, 0, 0, 0]\<rparr> DRM_MODE_FB_MODIFIERS)]
        \<and> m_bufferId b' = 0"
    by (auto simp: DRM_FORMAT_MOD_INVALID_def)
  then obtain b' w' where
    i: "initialize ?E 100 ex_scanout ex_world = Inr (b', w')" and
    r: "filter is_registration (events_since ex_world w')
            = [DrmModeAddFB2WithModifiers
                 (fb2_args (set_size ex_bo ex_scanout)
                    \<lparr>handles = [3, 0, 0, 0], strides = [2560, 0, 0, 0],
                     offsets = [0, 0, 0, 0], modifiers = [0, 0, 0, 0]\<rparr> DRM_MODE_FB_MODIFIERS)]" and
    z: "m_bufferId b' = 0"
    by blast
  have "tiers (events_since ex_world w') = tiers (filter is_registration (events_since ex_world w'))"
    by (rule tiers_filter)
  with r have "tiers (events_since ex_world w') = [ModifierAware]"
    by (simp add: tiers_def List.map_filter_def)
  with i z h1 h2 h3 show ?thesis
    by blast
qed

lemma register_fb_failed:
  assumes "register_fb ev b a w = (b', w')"
    and "trace w' = trace w @ evs"
    and "all_failed ev evs"
  shows "(if m_surface b \<noteq> None
          then \<exists>dg. filter is_critical evs
                 = [LogCriticalAddFB dg (gpu_devNode (m_gpu b)) (gbm_format_get_name ev (m_format b))
                      (modifiers a ! 0) (errno w')]
          else filter is_critical evs = [])
     \<and> m_bufferId b' = m_bufferId b"
  using assms
  by (auto simp: register_fb_def Let_def critical_addfb_def all_failed_def
      split: drm_ret.splits if_splits)

text \<open>
  Claim C8, as the code has it. When every registration call that was made is refused,
  the diagnostic naming the device node, the name of the pixel format and the modifier of
  plane 0 is written exactly once if the buffer came from a pool (\<^verbatim>\<open>m_surface\<close> is set),
  and not at all if it was imported; either way the object keeps its native handle and
  its identifier is unchanged.
\<close>

theorem C8_registration_diagnostic:
  assumes "m_bo b = Some nbo" and "bo_plane_count nbo \<le> 4"
    and "initialize ev this b w = Inr (b', w')"
    and "all_failed ev (events_since w w')"
  shows "\<exists>a. plane_arrays nbo (m_modifier b) = Inr a
     \<and> (if m_surface b \<noteq> None
        then \<exists>dg. filter is_critical (events_since w w')
               = [LogCriticalAddFB dg (gpu_devNode (m_gpu b)) (gbm_format_get_name ev (m_format b))
                    (modifiers a ! 0) (errno w')]
        else filter is_critical (events_since w w') = [])
     \<and> m_bo b' = Some nbo \<and> m_bufferId b' = m_bufferId b"
proof -
  let ?b1 = "set_size nbo b"
  have same: "m_modifier ?b1 = m_modifier b" "m_gpu ?b1 = m_gpu b" "m_bufferId ?b1 = m_bufferId b"
    "m_bo ?b1 = Some nbo" "m_surface ?b1 = m_surface b" "m_format ?b1 = m_format b"
    using assms(1) by (simp_all add: set_size_def)
  from plane_arrays_ok [OF assms(2), of "m_modifier b"] obtain a where
    a: "plane_arrays nbo (m_modifier b) = Inr a"
    by blast
  obtain b2 w2 where reg: "register_fb ev ?b1 a w = (b2, w2)"
    by (cases "register_fb ev ?b1 a w")
  from register_fb_frame [of ev ?b1 a w] reg same(4) obtain evs where
    t: "trace w2 = trace w @ evs" and bo: "m_bo b2 = Some nbo"
    by auto
  let ?tag = "GbmBoSetUserData (bo_id nbo) this"
  have init: "initialize ev this b w = Inr (b2, emit ?tag w2)"
    using assms(1) a reg same(1) by (simp add: initialize_def Let_def)
  with assms(3) have res: "b' = b2" "w' = emit ?tag w2"
    by simp_all
  have es: "events_since w w' = evs @ [?tag]"
    using t res by (simp add: events_since_def)
  with assms(4) have fail: "all_failed ev evs"
    by (simp add: all_failed_def)
  from register_fb_failed [OF reg t fail, unfolded same]
  have "(if m_surface b \<noteq> None
          then \<exists>dg. filter is_critical evs
                 = [LogCriticalAddFB dg (gpu_devNode (m_gpu b)) (gbm_format_get_name ev (m_format b))
                      (modifiers a ! 0) (errno w2)]
          else filter is_critical evs = [])
     \<and> m_bufferId b2 = m_bufferId b" .
  then show ?thesis
    using a es res bo by (auto split: if_splits)
qed

text \<open>
  An imported client buffer for which both calls of its branch are refused: no critical
  line is written.
\<close>

theorem C8_every_failure_reported_counterexample:
  "registration_outcome
     (DrmGbmBuffer_import (ex_env (Inr ex_bo) (DrmErr 22) (DrmErr 22) (DrmErr 22) None)
        100 ex_gpu ex_client ex_world)
   = Some ([MultiPlane, SinglePlane], 0, [])"
  by (simp add: registration_outcome_def DrmGbmBuffer_import_def GbmBuffer_import_def
      import_request_def ex_client_def ex_plane_def
      GbmBuffer_default_def DrmBuffer_init_def initialize_def set_size_def plane_arrays_def
      fill_fb_planes.simps zero_arrays_def register_fb_def fb2_args_def fb_args_def
      critical_addfb_def ex_env_def ex_gpu_def ex_bo_def ex_world_def emit_def tiers_def
      List.map_filter_def DRM_FORMAT_MOD_INVALID_def DRM_MODE_FB_MODIFIERS_def Let_def)

lemma all_refused:
  "all_failed (ex_env imp (DrmErr e1) (DrmErr e2) (DrmErr e3) rm) evs"
proof -
  have "\<not> succeeded (reg_answer (ex_env imp (DrmErr e1) (DrmErr e2) (DrmErr e3) rm) x)" for x
    by (cases x) (simp_all add: ex_env_def)
  then show ?thesis
    by (simp add: all_failed_def list_all_iff)
qed

lemma initialize_returns:
  assumes "m_bo b = Some nbo" and "bo_plane_count nbo \<le> 4"
  shows "\<exists>b' w'. initialize ev this b w = Inr (b', w')"
proof -
  from plane_arrays_ok [OF assms(2), of "m_modifier (set_size nbo b)"] obtain a where
    "plane_arrays nbo (m_modifier (set_size nbo b)) = Inr a"
    by blast
  with assms(1) show ?thesis
    by (simp add: initialize_def Let_def split: prod.splits)
qed

theorem C8_registration_diagnostic_witness:
  "m_bo ex_scanout = Some ex_bo \<and> bo_plane_count ex_bo \<le> 4
   \<and> (\<exists>b' w'. initialize (ex_env (Inr ex_bo) (DrmErr 22) (DrmErr 22) (DrmErr 22) None) 100
                     ex_scanout ex_world = Inr (b', w')
        \<and> all_failed (ex_env (Inr ex_bo) (DrmErr 22) (DrmErr 22) (DrmErr 22) None)
              (events_since ex_world w')
        \<and> (\<exists>dg. filter is_critical (events_since ex_world w')
               = [LogCriticalAddFB dg ''/dev/dri/card0'' ''XR24'' 0 (errno w')])
        \<and> m_bo b' = Some ex_bo \<and> m_bufferId b' = 0)"
proof -
  let ?E = "ex_env (Inr ex_bo) (DrmErr 22) (DrmErr 22) (DrmErr 22) None"
  have h1: "m_bo ex_scanout = Some ex_bo"
    by (simp add: ex_scanout_def DrmBuffer_init_def ex_pool_buffer_def GbmBuffer_default_def)
  have h2: "bo_plane_count ex_bo \<le> 4"
    by (simp add: ex_bo_def)
  from initialize_returns [OF h1 h2, of ?E 100 ex_world] obtain b' w' where
    h3: "initialize ?E 100 ex_scanout ex_world = Inr (b', w')"
    by blast
  have h4: "all_failed ?E (events_since ex_world w')"
    by (rule all_refused)
  have a: "plane_arrays ex_bo (m_modifier ex_scanout)
        = Inr \<lparr>handles = [3, 0, 0, 0], strides = [2560, 0, 0, 0],
                offsets = [0, 0, 0, 0], modifiers = [0, 0, 0, 0]\<rparr>"
    by (simp add: plane_arrays_def fill_fb_planes.simps zero_arrays_def ex_bo_def ex_scanout_def
        DrmBuffer_init_def)
  have vals: "m_surface ex_scanout = Some 2" "gpu_devNode (m_gpu ex_scanout) = ''/dev/dri/card0''"
    "gbm_format_get_name ?E (m_format ex_scanout) = ''XR24''" "m_bufferId ex_scanout = 0"
    by (simp_all add: ex_scanout_def DrmBuffer_init_def ex_pool_buffer_def GbmBuffer_default_def
        ex_gpu_def ex_env_def)
  from C8_registration_diagnostic [OF h1 h2 h3 h4] a vals
  have "(\<exists>dg. filter is_critical (events_since ex_world w')
               = [LogCriticalAddFB dg ''/dev/dri/card0'' ''XR24'' 0 (errno w')])
        \<and> m_bo b' = Some ex_bo \<and> m_bufferId b' = 0"
    by auto
  with h1 h2 h3 h4 show ?thesis
    by blast
qed

text \<open>
  Queuing the buffer that is queued already changes nothing: the copy adds the reference
  that the end of the old pointer takes away.
\<close>

lemma setNext_same:
  assumes "m_nextBuffer c = Some old" and "h old = Some cell" and "0 < strongref cell"
  shows "setNext ev (Some old) c h w = Inr (c, h, w)"
proof -
  have "h(old \<mapsto> cell) = h"
    using assms(2) by (rule map_upd_triv)
  moreover have "c\<lparr>m_nextBuffer := Some old\<rparr> = c"
    using assms(1) by simp
  ultimately show ?thesis
    using assms by (simp add: setNext_def sp_ref_def sp_deref_def Let_def)
qed

text \<open>
  Claim C9. With a buffer queued in the slot, held by a live cell, \<^verbatim>\<open>setNext\<close> with
  another valid pointer stores that pointer as next and changes no other member of the
  slot: current is as it was. The slot's copy counts: the cell of the new buffer has one
  reference more, and is otherwise the same. The queued buffer loses one reference: when
  it was the last, its cell is gone and the world is the one its destructor leaves (for a
  scanout buffer: deregistration, then release); otherwise its count is one less and
  nothing happens to the world. Every other cell, the one of current among them, is
  exactly as before, object and count.
\<close>

theorem C9_setNext:
  assumes "m_nextBuffer c = Some old" and "h old = Some cell" and "0 < strongref cell"
    and "valid_ptr h buffer" and "buffer \<noteq> Some old"
  shows "\<exists>c' h' w'. setNext ev buffer c h w = Inr (c', h', w')
     \<and> m_nextBuffer c' = buffer
     \<and> m_currentBuffer c' = m_currentBuffer c
     \<and> c' = c\<lparr>m_nextBuffer := buffer\<rparr>
     \<and> (if strongref cell = 1
        then h' old = None \<and> w' = DrmBuffer_delete ev old (cell_obj cell) w
        else h' old = Some (cell\<lparr>strongref := strongref cell - 1\<rparr>) \<and> w' = w)
     \<and> (\<forall>sb. cell_obj cell = GbmKind sb \<and> strongref cell = 1 \<longrightarrow>
            w' = snd (releaseBuffer old sb (remove_fb ev sb w)))
     \<and> (\<forall>a. a \<noteq> old \<longrightarrow> map_option cell_obj (h' a) = map_option cell_obj (h a))
     \<and> (\<forall>new ncell. buffer = Some new \<and> h new = Some ncell \<longrightarrow>
            h' new = Some (ncell\<lparr>strongref := strongref ncell + 1\<rparr>))
     \<and> (\<forall>a. a \<noteq> old \<and> buffer \<noteq> Some a \<longrightarrow> h' a = h a)"
proof (cases buffer)
  case None
  with assms show ?thesis
    by (auto simp: setNext_def sp_ref_def sp_deref_def Let_def DrmBuffer_delete_def
        DrmGbmBuffer_destroy_def GbmBuffer_destroy_def)
next
  case (Some new)
  with assms(4) obtain ncell where n: "h new = Some ncell"
    by (auto simp: valid_ptr_def split: option.splits)
  from Some assms(5) have ne: "new \<noteq> old"
    by simp
  show ?thesis
    using Some n ne assms(1-3)
    by (auto simp: setNext_def sp_ref_def sp_deref_def Let_def DrmBuffer_delete_def
        DrmGbmBuffer_destroy_def GbmBuffer_destroy_def)
qed

theorem C9_setNext_witness:
  "m_nextBuffer ex_crtc = Some 1
   \<and> ex_store 1 = Some \<lparr>cell_obj = GbmKind (ex_scanout\<lparr>m_bufferId := 42\<rparr>), strongref = 1\<rparr>
   \<and> valid_ptr ex_store (Some 2)
   \<and> (\<exists>c' h' w'. setNext (ex_env (Inr ex_bo) (DrmOk 1) (DrmOk 1) (DrmOk 1) None) (Some 2)
                        ex_crtc ex_store ex_world = Inr (c', h', w')
        \<and> m_nextBuffer c' = Some 2 \<and> m_currentBuffer c' = Some 0
        \<and> h' 1 = None
        \<and> trace w' = [DrmModeRmFB 5 42, SurfaceReleaseBuffer 2 1]
        \<and> h' 2 = Some \<lparr>cell_obj = GbmKind ex_empty_scanout, strongref = 2\<rparr>
        \<and> h' 0 = Some \<lparr>cell_obj = GbmKind ex_scanout, strongref = 1\<rparr>)"
proof -
  let ?E = "ex_env (Inr ex_bo) (DrmOk 1) (DrmOk 1) (DrmOk 1) None"
  let ?cell = "\<lparr>cell_obj = GbmKind (ex_scanout\<lparr>m_bufferId := 42\<rparr>), strongref = 1\<rparr>"
  have h1: "m_nextBuffer ex_crtc = Some 1"
    by (simp add: ex_crtc_def)
  have h2: "ex_store 1 = Some ?cell"
    by (simp add: ex_store_def)
  have h3: "0 < strongref ?cell"
    by simp
  have h4: "valid_ptr ex_store (Some 2)"
    by (simp add: valid_ptr_def ex_store_def)
  have h5: "Some (2::nat) \<noteq> Some 1"
    by simp
  have cur: "m_currentBuffer ex_crtc = Some 0"
    "ex_store 0 = Some \<lparr>cell_obj = GbmKind ex_scanout, strongref = 1\<rparr>"
    "ex_store 2 = Some \<lparr>cell_obj = GbmKind ex_empty_scanout, strongref = 1\<rparr>"
    by (simp_all add: ex_crtc_def ex_store_def)
  have del: "trace (DrmBuffer_delete ?E 1 (cell_obj ?cell) ex_world)
           = [DrmModeRmFB 5 42, SurfaceReleaseBuffer 2 1]"
    by (simp add: DrmBuffer_delete_def DrmGbmBuffer_destroy_def GbmBuffer_destroy_def
        remove_fb_def releaseBuffer_def ex_scanout_def DrmBuffer_init_def ex_pool_buffer_def
        GbmBuffer_default_def ex_gpu_def ex_env_def ex_world_def emit_def Let_def)
  from C9_setNext [OF h1 h2 h3 h4 h5, of ?E ex_world] obtain c' h' w' where
    r: "setNext ?E (Some 2) ex_crtc ex_store ex_world = Inr (c', h', w')" and
    n: "m_nextBuffer c' = Some 2" and
    c: "m_currentBuffer c' = m_currentBuffer ex_crtc" and
    d: "if strongref ?cell = 1
        then h' 1 = None \<and> w' = DrmBuffer_delete ?E 1 (cell_obj ?cell) ex_world
        else h' 1 = Some (?cell\<lparr>strongref := strongref ?cell - 1\<rparr>) \<and> w' = ex_world" and
    k: "\<forall>new ncell. Some (2::nat) = Some new \<and> ex_store new = Some ncell \<longrightarrow>
            h' new = Some (ncell\<lparr>strongref := strongref ncell + 1\<rparr>)" and
    o: "\<forall>a. a \<noteq> 1 \<and> Some (2::nat) \<noteq> Some a \<longrightarrow> h' a = ex_store a"
    by blast
  from d have gone: "h' 1 = None" and w': "w' = DrmBuffer_delete ?E 1 (cell_obj ?cell) ex_world"
    by simp_all
  from o have "h' 0 = ex_store 0"
    by simp
  with cur have kept: "h' 0 = Some \<lparr>cell_obj = GbmKind ex_scanout, strongref = 1\<rparr>"
    by simp
  from k cur(3) have counted: "h' 2 = Some \<lparr>cell_obj = GbmKind ex_empty_scanout, strongref = 2\<rparr>"
    by simp
  from w' del have tr: "trace w' = [DrmModeRmFB 5 42, SurfaceReleaseBuffer 2 1]"
    by simp
  from c cur have cur': "m_currentBuffer c' = Some 0"
    by simp
  from h1 h2 h4 r n cur' gone tr counted kept show ?thesis
    by blast
qed

end
